theory Spec2Isabelle
  imports Main "HOL-Library.Char_ord" "HOL-Library.List_Lexorder"
begin

text \<open>
  The feedback server of \<open>Backend/server.js\<close>: an Express application that takes an uploaded
  CSV, has an external process split it into one file per instructor, has another analyze
  one such file, and formats the summary it gets back as a report, a CSV and a chat answer.
  The file holds two versions of the server; the development follows the second (from
  line 342 on), which has the instructor-data directory and the seven routes.

  The handlers are functions of the request and of an environment record that answers what
  they ask of the world (the cached runtime command, the file system, the child process,
  \<open>JSON.parse\<close>, the clock).  A handler returns the effects it had, in order, and either
  the response it wrote or the error it threw.  The library functions the handlers call
  (\<open>path.join\<close>, \<open>path.extname\<close>, \<open>String.prototype.replace\<close>, \<open>Map\<close>, the router of
  Express, the filter of \<open>multer\<close>) are written out after their documented behaviour, for
  POSIX paths.  The startup probe that fills the cached runtime command is not part of the
  development: a state is given by the value of \<open>PYTHON_CMD\<close>.
\<close>

section \<open>JavaScript strings\<close>

text \<open>
  A JavaScript string is a sequence of code units; here a \<^typ>\<open>string\<close> holds the code
  units below 256, one \<^typ>\<open>char\<close> each.  The default comparison of \<open>Array.prototype.sort\<close>
  orders strings lexicographically by code unit, a proper prefix first: that is the order
  of \<^theory_text>\<open>List_Lexorder\<close> over \<^theory_text>\<open>Char_ord\<close>.
\<close>

definition startsWith :: "string \<Rightarrow> string \<Rightarrow> bool" where
  "startsWith s p = (take (length p) s = p)"

definition endsWith :: "string \<Rightarrow> string \<Rightarrow> bool" where
  "endsWith s p = (length p \<le> length s \<and> drop (length s - length p) s = p)"

text \<open>\<open>s.includes(p)\<close>: does \<open>p\<close> occur in \<open>s\<close>.\<close>

fun str_includes :: "string \<Rightarrow> string \<Rightarrow> bool" where
  "str_includes [] p = (p = [])"
| "str_includes (c # cs) p = (startsWith (c # cs) p \<or> str_includes cs p)"

text \<open>
  \<open>s.replace(pat, rep)\<close> with a string pattern replaces the first occurrence of \<open>pat\<close>
  only.  (The replacement is the empty string at every call site, so the \<open>$\<close> patterns of
  a replacement string play no part.)
\<close>

fun replace_first :: "string \<Rightarrow> string \<Rightarrow> string \<Rightarrow> string" where
  "replace_first pat rep [] = (if pat = [] then rep else [])"
| "replace_first pat rep (c # cs) =
     (if startsWith (c # cs) pat then rep @ drop (length pat) (c # cs)
      else c # replace_first pat rep cs)"

text \<open>\<open>s.replace(/_/g, ' ')\<close>: every underscore becomes a space.\<close>

definition underscores_to_spaces :: "string \<Rightarrow> string" where
  "underscores_to_spaces s = map (\<lambda>c. if c = CHR ''_'' then CHR '' '' else c) s"

text \<open>\<open>xs.join(sep)\<close> on an array of strings.\<close>

fun join :: "string \<Rightarrow> string list \<Rightarrow> string" where
  "join sep [] = []"
| "join sep [x] = x"
| "join sep (x # y # ys) = x @ sep @ join sep (y # ys)"

section \<open>Paths (POSIX \<open>path.join\<close>)\<close>

fun split_on :: "char \<Rightarrow> string \<Rightarrow> string list" where
  "split_on d [] = [[]]"
| "split_on d (c # cs) =
     (case split_on d cs of
        [] \<Rightarrow> [[c]]
      | seg # segs \<Rightarrow> if c = d then [] # seg # segs else (c # seg) # segs)"

text \<open>
  \<open>normalizeString\<close>: the segments are read from the left; an empty segment and \<open>.\<close> are
  dropped, \<open>..\<close> removes the segment before it and, where there is none, is kept in a
  relative path and dropped in an absolute one.  The accumulator holds the result reversed.
\<close>

fun normalize_segments :: "bool \<Rightarrow> string list \<Rightarrow> string list \<Rightarrow> string list" where
  "normalize_segments allowAboveRoot acc [] = rev acc"
| "normalize_segments allowAboveRoot acc (seg # segs) =
     (if seg = [] \<or> seg = ''.'' then normalize_segments allowAboveRoot acc segs
      else if seg = ''..'' then
        (case acc of
           [] \<Rightarrow> normalize_segments allowAboveRoot (if allowAboveRoot then [''..''] else []) segs
         | a # acc' \<Rightarrow>
             if a = ''..'' then normalize_segments allowAboveRoot (''..'' # a # acc') segs
             else normalize_segments allowAboveRoot acc' segs)
      else normalize_segments allowAboveRoot (seg # acc) segs)"

definition path_normalize :: "string \<Rightarrow> string" where
  "path_normalize p =
     (if p = [] then ''.''
      else
        let isAbsolute = (hd p = CHR ''/'');
            trailingSeparator = (last p = CHR ''/'');
            body = join ''/'' (normalize_segments (\<not> isAbsolute) [] (split_on CHR ''/'' p));
            body' = (if body = [] then (if isAbsolute then [] else ''.'') else body);
            body'' = (if body \<noteq> [] \<and> trailingSeparator then body' @ ''/'' else body')
        in if isAbsolute then ''/'' @ body'' else body'')"

text \<open>\<open>path.join(a, b, ...)\<close>: the non-empty arguments joined by \<open>/\<close>, then normalized.\<close>

definition path_join :: "string list \<Rightarrow> string" where
  "path_join args = path_normalize (join ''/'' (filter (\<lambda>a. a \<noteq> []) args))"

text \<open>
  \<open>path.extname\<close>: from the last dot of the last segment (trailing slashes apart) to its
  end; empty when that segment has no dot, starts with its only dot, or is \<open>..\<close>.
\<close>

definition basename_segment :: "string \<Rightarrow> string" where
  "basename_segment p =
     rev (takeWhile (\<lambda>c. c \<noteq> CHR ''/'') (dropWhile (\<lambda>c. c = CHR ''/'') (rev p)))"

definition path_extname :: "string \<Rightarrow> string" where
  "path_extname p =
     (let seg = basename_segment p;
          ext = rev (takeWhile (\<lambda>c. c \<noteq> CHR ''.'') (rev seg))
      in if CHR ''.'' \<notin> set seg then []
         else if length ext + 1 = length seg then []
         else if seg = ''..'' then []
         else CHR ''.'' # ext)"

section \<open>Values, errors, the environment of a request\<close>

text \<open>
  A parsed JSON value.  An object keeps its members as the text lists them; a property read
  finds the last member of that name, as \<open>JSON.parse\<close> does.  \<open>undefined\<close> is \<open>None\<close>.
  Numbers are the integers (the formatting of a fraction is outside this development).
\<close>

datatype json =
    JNull
  | JBool bool
  | JNum int
  | JStr string
  | JArr "json list"
  | JObj "(string \<times> json) list"

type_synonym jsval = "json option"

fun truthy :: "jsval \<Rightarrow> bool" where
  "truthy None = False"
| "truthy (Some JNull) = False"
| "truthy (Some (JBool b)) = b"
| "truthy (Some (JNum n)) = (n \<noteq> 0)"
| "truthy (Some (JStr s)) = (s \<noteq> [])"
| "truthy (Some (JArr xs)) = True"
| "truthy (Some (JObj kvs)) = True"

datatype js_error =
    TypeError string
  | ReferenceError string
  | Error string
  | MulterError string string

fun error_message :: "js_error \<Rightarrow> string" where
  "error_message (TypeError m) = m"
| "error_message (ReferenceError m) = m"
| "error_message (Error m) = m"
| "error_message (MulterError code m) = m"

text \<open>
  \<open>v.k\<close> for one of the property names the handlers read (none of them is a built-in
  property of a string, a number, a boolean or an array): a \<open>TypeError\<close> on \<open>undefined\<close>
  and \<open>null\<close>, the member of an object, \<open>undefined\<close> otherwise.
\<close>

fun get_prop :: "jsval \<Rightarrow> string \<Rightarrow> js_error + jsval" where
  "get_prop None k = Inl (TypeError (''Cannot read properties of undefined (reading '' @ k @ '')''))"
| "get_prop (Some JNull) k = Inl (TypeError (''Cannot read properties of null (reading '' @ k @ '')''))"
| "get_prop (Some (JObj kvs)) k = Inr (map_of (rev kvs) k)"
| "get_prop (Some v) k = Inr None"

definition digit_char :: "nat \<Rightarrow> char" where
  "digit_char d =
     (if d = 0 then CHR ''0'' else if d = 1 then CHR ''1'' else if d = 2 then CHR ''2''
      else if d = 3 then CHR ''3'' else if d = 4 then CHR ''4'' else if d = 5 then CHR ''5''
      else if d = 6 then CHR ''6'' else if d = 7 then CHR ''7'' else if d = 8 then CHR ''8''
      else CHR ''9'')"

function show_nat :: "nat \<Rightarrow> string" where
  "show_nat n =
     (if n < 10 then [digit_char n]
      else show_nat (n div 10) @ [digit_char (n mod 10)])"
  by pat_completeness auto
termination
  by (relation "measure id") auto

definition show_int :: "int \<Rightarrow> string" where
  "show_int i = (if i < 0 then CHR ''-'' # show_nat (nat (- i)) else show_nat (nat i))"

text \<open>
  What the child process did: it could not be started (the \<open>error\<close> event, with the
  message), or it closed with an exit code (\<open>null\<close> when a signal ended it), its standard
  output and its standard error.
\<close>

datatype proc_result =
    SpawnError string
  | Closed "int option" string string

text \<open>
  The file \<open>multer\<close> stored for the request (\<open>req.file\<close>), and the world a handler reads:
  the cached runtime command, the server directory, the file system's answers, the
  outcome of a child process for a command line, \<open>JSON.parse\<close> (\<open>None\<close> where it throws
  a \<open>SyntaxError\<close>) and the two renderings of the current time.
\<close>

record upload_file =
  originalname :: string
  mimetype :: string
  path :: string
  fileSize :: nat

record env =
  PYTHON_CMD :: "string option"
  dirname :: string
  existsSync :: "string \<Rightarrow> bool"
  readdirSync :: "string \<Rightarrow> string list"
  spawn_close :: "string \<Rightarrow> string list \<Rightarrow> proc_result"
  JSON_parse :: "string \<Rightarrow> json option"
  toLocaleString :: string
  toISOString :: string

datatype effect =
    Spawn string "string list"
  | UnlinkFile string

record instructor =
  inst_id :: string
  inst_name :: string
  inst_filename :: string

record health =
  status :: string
  timestamp :: string
  python_available :: bool
  python_version :: string
  health_message :: "string option"
  python_command :: "string option"

text \<open>
  The bodies the handlers send: \<open>{success: false, error}\<close>, the same with \<open>details\<close>
  (\<open>stderr\<close>, \<open>stdout\<close>), \<open>{success: true, instructors, message}\<close>,
  \<open>{success: true, data, filename}\<close>, the health report, a text attachment (content type,
  content disposition, text), \<open>{success: true, response}\<close>, and the framework's own error
  page.
\<close>

datatype body =
    ErrorBody json
  | ErrorDetails json "string option" "string option"
  | InstructorsBody "instructor list" string
  | AnalysisBody json json
  | HealthBody health
  | Attachment string string string
  | ChatBody jsval
  | DefaultErrorPage

text \<open>
  A handler either writes a response (status and body) or throws; an \<open>async\<close> handler that
  throws rejects its promise and writes nothing.
\<close>

datatype result =
    Responded nat body
  | Raised js_error

type_synonym outcome = "effect list \<times> result"

definition uploadsDir :: "env \<Rightarrow> string" where
  "uploadsDir e = path_join [dirname e, ''uploads'']"

definition instructorDataDir :: "env \<Rightarrow> string" where
  "instructorDataDir e = path_join [dirname e, ''instructor_data'']"

section \<open>The upload filter of \<open>multer\<close> and the error middleware\<close>

definition fileFilter :: "upload_file \<Rightarrow> bool" where
  "fileFilter file = (mimetype file = ''text/csv'' \<or> path_extname (originalname file) = ''.csv'')"

definition fileSize_limit :: nat where
  "fileSize_limit = 10 * 1024 * 1024"

text \<open>
  \<open>upload.single('file')\<close>: no file part leaves \<open>req.file\<close> undefined; a part the filter
  refuses passes the filter's error on; a part beyond the size limit passes
  \<open>MulterError LIMIT_FILE_SIZE\<close> on; otherwise the file is stored and \<open>req.file\<close> set.
\<close>

definition upload_single :: "upload_file option \<Rightarrow> js_error + upload_file option" where
  "upload_single part =
     (case part of
        None \<Rightarrow> Inr None
      | Some file \<Rightarrow>
          if \<not> fileFilter file then Inl (Error ''Only CSV files are allowed!'')
          else if fileSize file > fileSize_limit
            then Inl (MulterError ''LIMIT_FILE_SIZE'' ''File too large'')
          else Inr (Some file))"

definition error_middleware :: "js_error \<Rightarrow> result" where
  "error_middleware error =
     (case error of
        MulterError code m \<Rightarrow>
          if code = ''LIMIT_FILE_SIZE''
            then Responded 400 (ErrorBody (JStr ''File size too large. Maximum size is 10MB.''))
          else Responded 500 (ErrorBody (JStr (if m \<noteq> [] then m else ''Internal server error'')))
      | _ \<Rightarrow>
          Responded 500
            (ErrorBody (JStr (if error_message error \<noteq> [] then error_message error
                              else ''Internal server error''))))"

section \<open>The upload handlers\<close>

definition feedback_suffix :: string where
  "feedback_suffix = ''_feedback.csv''"

definition extractScript :: "env \<Rightarrow> string" where
  "extractScript e = path_join [dirname e, ''extract_instructor_data.py'']"

text \<open>
  \<open>runPythonScript\<close>: the promise resolves with the standard output when the process closes
  with code 0, and rejects with \<open>{code, stderr, stdout}\<close> on another code and with
  \<open>{error}\<close> when the process cannot be started.  The rejection is kept as the
  \<^typ>\<open>proc_result\<close> itself.
\<close>

definition runPythonScript :: "env \<Rightarrow> string \<Rightarrow> string \<Rightarrow> string list \<Rightarrow> proc_result + string" where
  "runPythonScript e cmd scriptPath args =
     (case spawn_close e cmd (scriptPath # args) of
        Closed code out err \<Rightarrow> if code \<noteq> Some 0 then Inl (Closed code out err) else Inr out
      | SpawnError m \<Rightarrow> Inl (SpawnError m))"

text \<open>\<open>err.stderr || err.error || 'Unknown error'\<close> on a rejection of \<open>runPythonScript\<close>.\<close>

definition split_error_text :: "proc_result \<Rightarrow> string" where
  "split_error_text err =
     (case err of
        Closed code out stderr \<Rightarrow> if stderr \<noteq> [] then stderr else ''Unknown error''
      | SpawnError m \<Rightarrow> if m \<noteq> [] then m else ''Unknown error'')"

text \<open>The \<open>catch\<close> block of both upload handlers.\<close>

definition upload_catch :: "env \<Rightarrow> string \<Rightarrow> string \<Rightarrow> proc_result \<Rightarrow> outcome" where
  "upload_catch e cmd filePath err =
     ([Spawn cmd [extractScript e, filePath]] @
      (if existsSync e filePath then [UnlinkFile filePath] else []),
      Responded 500
        (ErrorBody (JStr (''Failed to split CSV by instructor: '' @ split_error_text err))))"

text \<open>The entry both handlers derive from a file name.\<close>

definition instructor_of_file :: "string \<Rightarrow> instructor" where
  "instructor_of_file file =
     \<lparr> inst_id = replace_first feedback_suffix [] file,
       inst_name = underscores_to_spaces (replace_first feedback_suffix [] file),
       inst_filename = file \<rparr>"

definition found_message :: "instructor list \<Rightarrow> string" where
  "found_message instructors = ''Found '' @ show_nat (length instructors) @ '' instructors''"

definition no_instructor_data :: result where
  \<open>no_instructor_data =
     Responded 400
       (ErrorBody (JStr ''No instructor data found. Make sure CSV has "Instructor" column.''))\<close>

text \<open>
  The steps the two handlers share up to the listing: no file, no runtime, no script, the
  split itself.  \<open>listed\<close> is what the handler does with the names \<open>readdirSync\<close> returns.
\<close>

definition upload_with :: "(string list \<Rightarrow> result) \<Rightarrow> env \<Rightarrow> upload_file option \<Rightarrow> outcome" where
  "upload_with listed e file =
     (case file of
        None \<Rightarrow> ([], Responded 400 (ErrorBody (JStr ''No file uploaded'')))
      | Some f \<Rightarrow>
          (case PYTHON_CMD e of
             None \<Rightarrow>
               ([UnlinkFile (path f)],
                Responded 500 (ErrorBody (JStr ''Python is not installed or not found in PATH.'')))
           | Some cmd \<Rightarrow>
               if \<not> existsSync e (extractScript e) then
                 ([UnlinkFile (path f)],
                  Responded 500
                    (ErrorBody (JStr ''extract_instructor_data.py not found in server directory.'')))
               else
                 (case runPythonScript e cmd (extractScript e) [path f] of
                    Inl err \<Rightarrow> upload_catch e cmd (path f) err
                  | Inr out \<Rightarrow>
                      ([Spawn cmd [extractScript e, path f], UnlinkFile (path f)],
                       listed (readdirSync e (instructorDataDir e))))))"

text \<open>The first registration of \<open>POST /api/upload\<close>: filter, then map.\<close>

definition upload_first_listed :: "string list \<Rightarrow> result" where
  "upload_first_listed names =
     (let files = filter (\<lambda>f. endsWith f feedback_suffix) names
      in if length files = 0 then no_instructor_data
         else
           let instructors = map instructor_of_file files
           in Responded 200 (InstructorsBody instructors (found_message instructors)))"

definition upload_first :: "env \<Rightarrow> upload_file option \<Rightarrow> outcome" where
  "upload_first = upload_with upload_first_listed"

text \<open>
  A \<open>Map\<close> keeps its keys in insertion order; \<open>set\<close> on a key it has replaces the value in
  place.
\<close>

type_synonym ('k, 'v) js_map = "('k \<times> 'v) list"

definition map_has :: "('k, 'v) js_map \<Rightarrow> 'k \<Rightarrow> bool" where
  "map_has m k = (k \<in> fst ` set m)"

definition map_set :: "('k, 'v) js_map \<Rightarrow> 'k \<Rightarrow> 'v \<Rightarrow> ('k, 'v) js_map" where
  "map_set m k v =
     (if map_has m k then map (\<lambda>(k', v'). if k' = k then (k', v) else (k', v')) m
      else m @ [(k, v)])"

definition map_values :: "('k, 'v) js_map \<Rightarrow> 'v list" where
  "map_values m = map snd m"

text \<open>The body of the \<open>forEach\<close> of the second registration.\<close>

definition register_file :: "string \<Rightarrow> (string, instructor) js_map \<Rightarrow> (string, instructor) js_map" where
  "register_file file instructorMap =
     (let baseName = replace_first feedback_suffix [] file;
          displayName = underscores_to_spaces baseName
      in if \<not> map_has instructorMap baseName
         then map_set instructorMap baseName
                \<lparr> inst_id = baseName, inst_name = displayName, inst_filename = file \<rparr>
         else instructorMap)"

text \<open>The second registration: filter, sort, then the map keyed by id.\<close>

definition upload_second_listed :: "string list \<Rightarrow> result" where
  "upload_second_listed names =
     (let files = sort (filter (\<lambda>f. endsWith f feedback_suffix) names)
      in if length files = 0 then no_instructor_data
         else
           let instructorMap = fold register_file files [];
               instructors = map_values instructorMap
           in Responded 200 (InstructorsBody instructors (found_message instructors)))"

definition upload_second :: "env \<Rightarrow> upload_file option \<Rightarrow> outcome" where
  "upload_second = upload_with upload_second_listed"

section \<open>The application: routes in the order they are registered\<close>

datatype handler =
    Login
  | UploadFirst
  | AnalyzeInstructor
  | Health
  | DownloadReport
  | UploadSecond
  | DownloadCsv
  | Chat

datatype layer =
    Route string string handler
  | ErrorMiddleware

definition app_stack :: "layer list" where
  "app_stack =
     [ Route ''POST'' ''/api/login'' Login,
       Route ''POST'' ''/api/upload'' UploadFirst,
       Route ''POST'' ''/api/analyze-instructor'' AnalyzeInstructor,
       Route ''GET'' ''/api/health'' Health,
       Route ''POST'' ''/api/download-report'' DownloadReport,
       ErrorMiddleware,
       Route ''POST'' ''/api/upload'' UploadSecond,
       Route ''POST'' ''/api/download-csv'' DownloadCsv,
       Route ''POST'' ''/api/chat'' Chat ]"

text \<open>
  The router walks the stack from the top: the first route of the method and path gets the
  request, and a handler that answers without calling \<open>next\<close> ends the walk.  An error passed
  to \<open>next\<close> goes to the first error middleware below the route, and to the framework's own
  error page when there is none.
\<close>

fun find_route :: "string \<Rightarrow> string \<Rightarrow> layer list \<Rightarrow> (handler \<times> layer list) option" where
  "find_route m p [] = None"
| "find_route m p (ErrorMiddleware # rest) = find_route m p rest"
| "find_route m p (Route m' p' h # rest) =
     (if m = m' \<and> p = p' then Some (h, rest) else find_route m p rest)"

definition pass_error :: "layer list \<Rightarrow> js_error \<Rightarrow> result" where
  "pass_error rest error =
     (if ErrorMiddleware \<in> set rest then error_middleware error else Responded 500 DefaultErrorPage)"

text \<open>
  \<open>POST /api/upload\<close> as the application serves it: the route found, \<open>upload.single\<close> in
  front of its handler.
\<close>

definition upload_endpoint :: "env \<Rightarrow> upload_file option \<Rightarrow> outcome" where
  "upload_endpoint e part =
     (case find_route ''POST'' ''/api/upload'' app_stack of
        None \<Rightarrow> ([], Responded 404 DefaultErrorPage)
      | Some (h, rest) \<Rightarrow>
          (case upload_single part of
             Inl error \<Rightarrow> ([], pass_error rest error)
           | Inr file \<Rightarrow>
               (if h = UploadFirst then upload_first e file
                else if h = UploadSecond then upload_second e file
                else ([], Responded 404 DefaultErrorPage))))"

section \<open>The splitting process\<close>

text \<open>
  Modelled from the spec: \<open>extract_instructor_data.py\<close>, the splitting process, is not
  among the sources.  The spec has it write one CSV per distinct value of the Instructor
  column into the instructor-data directory, named after the instructor with spaces replaced
  by underscores and the fixed suffix.  The directory is the list of its file names; a file
  that is there already is overwritten, a new one adds its name.
\<close>

definition normalize_instructor :: "string \<Rightarrow> string" where
  "normalize_instructor v = map (\<lambda>c. if c = CHR '' '' then CHR ''_'' else c) v"

definition instructor_file :: "string \<Rightarrow> string" where
  "instructor_file v = normalize_instructor v @ feedback_suffix"

definition write_file :: "string \<Rightarrow> string list \<Rightarrow> string list" where
  "write_file f dir = (if f \<in> set dir then dir else dir @ [f])"

text \<open>
  Modelled from the spec: the split itself, which is the missing script's work.  Its input is
  the Instructor column of the uploaded CSV, row by row, and the directory before the split;
  its result is the directory after it.
\<close>

definition split_by_instructor :: "string list \<Rightarrow> string list \<Rightarrow> string list" where
  "split_by_instructor column dir = fold (\<lambda>v. write_file (instructor_file v)) column dir"

text \<open>
  The wording of the spec for the listing step: the files with the suffix, sorted, one entry
  each, deduplicated by id with the first occurrence winning.
\<close>

fun dedupe_by_id :: "string list \<Rightarrow> instructor list \<Rightarrow> instructor list" where
  "dedupe_by_id seen [] = []"
| "dedupe_by_id seen (i # is) =
     (if inst_id i \<in> set seen then dedupe_by_id seen is
      else i # dedupe_by_id (inst_id i # seen) is)"

definition spec_listing :: "string list \<Rightarrow> instructor list" where
  "spec_listing names =
     dedupe_by_id []
       (map instructor_of_file (sort (filter (\<lambda>f. endsWith f feedback_suffix) names)))"

section \<open>Rendering values as text\<close>

definition nl :: string where
  "nl = [CHR 0x0A]"

text \<open>\<open>String(v)\<close>, as a template literal renders a value.\<close>

fun json_text :: "json \<Rightarrow> string" where
  "json_text JNull = ''null''"
| "json_text (JBool b) = (if b then ''true'' else ''false'')"
| "json_text (JNum n) = show_int n"
| "json_text (JStr s) = s"
| "json_text (JArr xs) = join '','' (map (\<lambda>x. if x = JNull then [] else json_text x) xs)"
| "json_text (JObj kvs) = ''[object Object]''"

definition to_text :: "jsval \<Rightarrow> string" where
  "to_text v = (case v of None \<Rightarrow> ''undefined'' | Some j \<Rightarrow> json_text j)"

text \<open>An element as \<open>Array.prototype.join\<close> renders it: nothing for \<open>undefined\<close> and \<open>null\<close>.\<close>

definition element_text :: "jsval \<Rightarrow> string" where
  "element_text v = (case v of None \<Rightarrow> [] | Some JNull \<Rightarrow> [] | Some j \<Rightarrow> json_text j)"

text \<open>\<open>${v || d}\<close>.\<close>

definition or_text :: "jsval \<Rightarrow> string \<Rightarrow> string" where
  "or_text v d = (if truthy v then to_text v else d)"

definition bind_js :: "js_error + 'a \<Rightarrow> ('a \<Rightarrow> js_error + 'b) \<Rightarrow> js_error + 'b" where
  "bind_js m f = (case m of Inl error \<Rightarrow> Inl error | Inr x \<Rightarrow> f x)"

definition settle :: "js_error + result \<Rightarrow> result" where
  "settle m = (case m of Inl error \<Rightarrow> Raised error | Inr r \<Rightarrow> r)"

text \<open>
  The receiver of an array method (\<open>forEach\<close>, \<open>map\<close>, \<open>join\<close>): only an array has it; the
  call on anything else is a \<open>TypeError\<close>.
\<close>

definition receiver_array :: "jsval \<Rightarrow> string \<Rightarrow> js_error + json list" where
  "receiver_array v method =
     (case v of
        None \<Rightarrow> Inl (TypeError (''Cannot read properties of undefined (reading '' @ method @ '')''))
      | Some JNull \<Rightarrow> Inl (TypeError (''Cannot read properties of null (reading '' @ method @ '')''))
      | Some (JArr xs) \<Rightarrow> Inr xs
      | Some _ \<Rightarrow> Inl (TypeError (method @ '' is not a function'')))"

text \<open>The lines \<open>${i + 1}. ${area}\<close> of a list, from index \<open>i\<close> on.\<close>

fun numbered :: "nat \<Rightarrow> json list \<Rightarrow> string list" where
  "numbered i [] = []"
| "numbered i (area # areas) = (show_nat (i + 1) @ ''. '' @ json_text area) # numbered (i + 1) areas"

definition is_space :: "char \<Rightarrow> bool" where
  "is_space c = ((of_char c :: nat) \<in> {9, 10, 11, 12, 13, 32, 160})"

text \<open>\<open>s.replace(/\s+/g, '_')\<close>: every run of white space becomes one underscore.\<close>

function spaces_to_underscore :: "string \<Rightarrow> string" where
  "spaces_to_underscore [] = []"
| "spaces_to_underscore (c # cs) =
     (if is_space c then CHR ''_'' # spaces_to_underscore (dropWhile is_space cs)
      else c # spaces_to_underscore cs)"
  by pat_completeness auto
termination
  by (relation "measure length") (auto simp: less_Suc_eq_le length_dropWhile_le)

definition trim :: "string \<Rightarrow> string" where
  "trim s = rev (dropWhile is_space (rev (dropWhile is_space s)))"

text \<open>\<open>instructor ? instructor.replace(/\s+/g, '_') : 'feedback'\<close>.\<close>

definition attachment_stem :: "jsval \<Rightarrow> js_error + string" where
  "attachment_stem instructor =
     (if truthy instructor then
        (case instructor of
           Some (JStr s) \<Rightarrow> Inr (spaces_to_underscore s)
         | _ \<Rightarrow> Inl (TypeError ''instructor.replace is not a function''))
      else Inr ''feedback'')"

section \<open>\<open>POST /api/analyze-instructor\<close>\<close>

definition analyzeScript :: "env \<Rightarrow> string" where
  "analyzeScript e = path_join [dirname e, ''analyze.py'']"

text \<open>
  The \<open>catch\<close> block on a rejection of \<open>runPythonScript\<close>.  The inner \<open>try\<close> covers the
  parse of the standard output and the read of \<open>jsonError.error\<close>.
\<close>

definition analyze_catch_rejection :: "env \<Rightarrow> proc_result \<Rightarrow> result" where
  "analyze_catch_rejection e err =
     (case err of
        SpawnError m \<Rightarrow> Responded 500 (ErrorDetails (JStr ''Analysis failed'') None None)
      | Closed code stdout stderr \<Rightarrow>
          let errorMessage =
            (if stderr \<noteq> [] \<and> str_includes stderr ''ModuleNotFoundError''
               then JStr ''Python dependencies missing. Run: pip install transformers torch pandas''
             else if stdout \<noteq> [] then
               (case JSON_parse e stdout of
                  None \<Rightarrow> JStr stdout
                | Some jsonError \<Rightarrow>
                    (case get_prop (Some jsonError) ''error'' of
                       Inl error \<Rightarrow> JStr stdout
                     | Inr v \<Rightarrow> if truthy v then the v else JStr ''Analysis failed''))
             else JStr ''Analysis failed'')
          in Responded 500 (ErrorDetails errorMessage (Some stderr) (Some stdout)))"

text \<open>The \<open>catch\<close> block on an exception thrown inside the \<open>try\<close> (it has no \<open>stderr\<close>, no \<open>stdout\<close>).\<close>

definition analyze_catch_thrown :: result where
  "analyze_catch_thrown = Responded 500 (ErrorDetails (JStr ''Analysis failed'') None None)"

definition analyze_instructor :: "env \<Rightarrow> jsval \<Rightarrow> outcome" where
  "analyze_instructor e filename =
     (if \<not> truthy filename then
        ([], Responded 400 (ErrorBody (JStr ''Filename is required'')))
      else
        (case PYTHON_CMD e of
           None \<Rightarrow>
             ([], Responded 500 (ErrorBody (JStr ''Python is not installed or not found in PATH.'')))
         | Some cmd \<Rightarrow>
             (case filename of
                Some (JStr name) \<Rightarrow>
                  let instructorFilePath = path_join [instructorDataDir e, name] in
                  if \<not> existsSync e instructorFilePath then
                    ([], Responded 404 (ErrorBody (JStr ''Instructor file not found'')))
                  else if \<not> existsSync e (analyzeScript e) then
                    ([], Responded 500 (ErrorBody (JStr ''analyze.py not found in server directory.'')))
                  else
                    ([Spawn cmd [analyzeScript e, instructorFilePath]],
                     (case runPythonScript e cmd (analyzeScript e) [instructorFilePath] of
                        Inl err \<Rightarrow> analyze_catch_rejection e err
                      | Inr output \<Rightarrow>
                          (case JSON_parse e output of
                             None \<Rightarrow> analyze_catch_thrown
                           | Some parsed \<Rightarrow>
                               (case get_prop (Some parsed) ''error'' of
                                  Inl error \<Rightarrow> analyze_catch_thrown
                                | Inr v \<Rightarrow>
                                    if truthy v then Responded 400 (ErrorBody (the v))
                                    else Responded 200 (AnalysisBody parsed (JStr name))))))
              | _ \<Rightarrow> ([], Raised (TypeError ''The path argument must be of type string'')))))"

section \<open>\<open>GET /api/health\<close>\<close>

definition health_check :: "env \<Rightarrow> outcome" where
  "health_check e =
     (case PYTHON_CMD e of
        None \<Rightarrow>
          ([], Responded 200
                 (HealthBody
                    \<lparr> status = ''warning'', timestamp = toISOString e, python_available = False,
                      python_version = ''Not found'',
                      health_message = Some ''Python is not installed or not in PATH'',
                      python_command = None \<rparr>))
      | Some cmd \<Rightarrow>
          ([Spawn cmd [''--version'']],
           (case spawn_close e cmd [''--version''] of
              SpawnError m \<Rightarrow> Raised (Error m)
            | Closed code out err \<Rightarrow>
                Responded 200
                  (HealthBody
                     \<lparr> status = ''ok'', timestamp = toISOString e,
                       python_available = (code = Some 0),
                       python_version = trim (out @ err),
                       health_message = None, python_command = Some cmd \<rparr>))))"

section \<open>\<open>POST /api/download-report\<close> and \<open>POST /api/download-csv\<close>\<close>

definition rule_line :: "char \<Rightarrow> string" where
  "rule_line c = replicate 50 c"

text \<open>A titled list of the report: the title, the rule, one numbered line per element.\<close>

definition report_list :: "string \<Rightarrow> json list \<Rightarrow> string" where
  "report_list title items =
     title @ nl @ rule_line CHR ''-'' @ nl @ concat (map (\<lambda>l. l @ nl) (numbered 0 items))"

text \<open>The text added inside \<open>if (data && data.summary)\<close>, for the summary read there.\<close>

definition report_summary :: "jsval \<Rightarrow> js_error + string" where
  "report_summary summary =
     bind_js (get_prop summary ''total_responses'') (\<lambda>total_responses.
     bind_js (get_prop summary ''average_rating'') (\<lambda>average_rating.
     bind_js (get_prop summary ''avg_sentiment_percentage'') (\<lambda>avg_sentiment_percentage.
     bind_js (get_prop summary ''key_themes_count'') (\<lambda>key_themes_count.
     bind_js (get_prop summary ''top_praise_areas'') (\<lambda>top_praise_areas.
     bind_js (receiver_array top_praise_areas ''forEach'') (\<lambda>praise.
     bind_js (get_prop summary ''improvement_areas'') (\<lambda>improvement_areas.
     bind_js (receiver_array improvement_areas ''forEach'') (\<lambda>improvements.
     bind_js (get_prop summary ''recommendations'') (\<lambda>recommendations.
     bind_js (receiver_array recommendations ''forEach'') (\<lambda>recs.
       Inr (''SUMMARY'' @ nl @ rule_line CHR ''-'' @ nl
            @ ''Total Responses: '' @ to_text total_responses @ nl
            @ ''Average Rating: '' @ to_text average_rating @ nl
            @ ''Positive Sentiment: '' @ to_text avg_sentiment_percentage @ ''%'' @ nl
            @ ''Key Themes: '' @ to_text key_themes_count @ nl @ nl
            @ report_list ''TOP PRAISE AREAS'' praise
            @ nl @ report_list ''AREAS FOR IMPROVEMENT'' improvements
            @ nl @ report_list ''RECOMMENDATIONS'' recs)))))))))))"

definition report_header :: "env \<Rightarrow> jsval \<Rightarrow> string" where
  "report_header e instructor =
     ''EDUSENSE - FEEDBACK ANALYSIS REPORT'' @ nl @ rule_line CHR ''='' @ nl @ nl
     @ ''Instructor: '' @ or_text instructor ''All'' @ nl
     @ ''Generated: '' @ toLocaleString e @ nl @ nl"

definition download_report :: "env \<Rightarrow> jsval \<Rightarrow> jsval \<Rightarrow> result" where
  "download_report e data instructor =
     settle
       (bind_js (if truthy data then get_prop data ''summary'' else Inr None) (\<lambda>summary.
        bind_js (if truthy data \<and> truthy summary then report_summary summary else Inr []) (\<lambda>text.
        bind_js (attachment_stem instructor) (\<lambda>stem.
          Inr (Responded 200
                 (Attachment ''text/plain'' (''attachment; filename='' @ stem @ ''_report.txt'')
                    (report_header e instructor @ text)))))))"

text \<open>One row of the CSV: the six fields joined by commas, the feedback text quoted.\<close>

definition quote_csv :: "string \<Rightarrow> string" where
  "quote_csv t =
     [CHR 0x22] @ concat (map (\<lambda>c. if c = CHR 0x22 then [CHR 0x22, CHR 0x22] else [c]) t) @ [CHR 0x22]"

definition csv_row :: "json \<Rightarrow> js_error + string" where
  "csv_row item =
     bind_js (get_prop (Some item) ''student_id'') (\<lambda>student_id.
     bind_js (get_prop (Some item) ''course'') (\<lambda>course.
     bind_js (get_prop (Some item) ''instructor'') (\<lambda>instructor.
     bind_js (get_prop (Some item) ''rating'') (\<lambda>rating.
     bind_js (get_prop (Some item) ''sentiment'') (\<lambda>sentiment.
     bind_js (get_prop (Some item) ''category'') (\<lambda>category.
     bind_js (get_prop (Some item) ''feedback_text'') (\<lambda>feedback_text.
       (case feedback_text of
          Some (JStr t) \<Rightarrow>
            Inr (join '',''
                  (map element_text [student_id, course, instructor, rating, sentiment, category]
                   @ [quote_csv t]))
        | None \<Rightarrow> Inl (TypeError ''Cannot read properties of undefined (reading replace)'')
        | Some JNull \<Rightarrow> Inl (TypeError ''Cannot read properties of null (reading replace)'')
        | Some _ \<Rightarrow> Inl (TypeError ''item.feedback_text.replace is not a function'')))))))))"

fun csv_rows :: "json list \<Rightarrow> js_error + string" where
  "csv_rows [] = Inr []"
| "csv_rows (item # items) =
     bind_js (csv_row item) (\<lambda>row.
     bind_js (csv_rows items) (\<lambda>rest. Inr (row @ nl @ rest)))"

text \<open>
  The guard \<open>!data || !data.individual_analysis\<close> reads the second operand only when the
  first is false.
\<close>

definition download_csv :: "env \<Rightarrow> jsval \<Rightarrow> jsval \<Rightarrow> result" where
  "download_csv e data instructor =
     settle
       (bind_js (if truthy data then get_prop data ''individual_analysis'' else Inr None)
          (\<lambda>individual_analysis.
        if (if \<not> truthy data then True else \<not> truthy individual_analysis) then
          Inr (Responded 400 (ErrorBody (JStr ''No data provided'')))
        else
          bind_js (receiver_array individual_analysis ''forEach'') (\<lambda>items.
          bind_js (csv_rows items) (\<lambda>rows.
          bind_js (get_prop data ''summary'') (\<lambda>summary.
          bind_js (get_prop summary ''total_responses'') (\<lambda>total_responses.
          bind_js (get_prop summary ''average_rating'') (\<lambda>average_rating.
          bind_js (get_prop summary ''avg_sentiment_percentage'') (\<lambda>avg_sentiment_percentage.
          bind_js (get_prop summary ''key_themes_count'') (\<lambda>key_themes_count.
          bind_js (attachment_stem instructor) (\<lambda>stem.
            Inr (Responded 200
                   (Attachment ''text/csv''
                      (''attachment; filename='' @ [CHR 0x22] @ stem @ ''_analysis_''
                       @ takeWhile (\<lambda>c. c \<noteq> CHR ''T'') (toISOString e) @ ''.csv'' @ [CHR 0x22])
                      (''Student ID,Course,Instructor,Rating,Sentiment,Category,Feedback'' @ nl
                       @ rows
                       @ nl @ nl @ ''SUMMARY'' @ nl
                       @ ''Total Responses,'' @ to_text total_responses @ nl
                       @ ''Average Rating,'' @ to_text average_rating @ nl
                       @ ''Positive Sentiment %,'' @ to_text avg_sentiment_percentage @ nl
                       @ ''Key Themes,'' @ to_text key_themes_count @ nl)))))))))))))"

text \<open>
  The two routes as the application serves them.  The handlers are synchronous: the router
  catches what they throw and passes it to the error middleware below the route, of which
  \<open>download-report\<close> has one and \<open>download-csv\<close> none.
\<close>

definition serve_sync :: "string \<Rightarrow> string \<Rightarrow> handler \<Rightarrow> result \<Rightarrow> result" where
  "serve_sync method route h r =
     (case find_route method route app_stack of
        None \<Rightarrow> Responded 404 DefaultErrorPage
      | Some (h', rest) \<Rightarrow>
          if h' \<noteq> h then Responded 404 DefaultErrorPage
          else (case r of Raised error \<Rightarrow> pass_error rest error | Responded st b \<Rightarrow> Responded st b))"

definition download_report_endpoint :: "env \<Rightarrow> jsval \<Rightarrow> jsval \<Rightarrow> result" where
  "download_report_endpoint e data instructor =
     serve_sync ''POST'' ''/api/download-report'' DownloadReport (download_report e data instructor)"

definition download_csv_endpoint :: "env \<Rightarrow> jsval \<Rightarrow> jsval \<Rightarrow> result" where
  "download_csv_endpoint e data instructor =
     serve_sync ''POST'' ''/api/download-csv'' DownloadCsv (download_csv e data instructor)"

section \<open>\<open>POST /api/chat\<close>\<close>

text \<open>
  What the call of the external model gave: \<open>fetch\<close> rejected, the body of the answer was
  not JSON (\<open>response.json()\<close> rejected), or the parsed body.  The call is a function of
  the messages sent (role and content).
\<close>

datatype fetch_outcome =
    FetchRejected string
  | NotJson string
  | Parsed json

type_synonym chat_message = "string \<times> jsval"

text \<open>\<open>analysisData?.summary || {}\<close>.\<close>

definition chat_summary :: "jsval \<Rightarrow> jsval" where
  "chat_summary analysisData =
     (case get_prop analysisData ''summary'' of
        Inl error \<Rightarrow> Some (JObj [])
      | Inr v \<Rightarrow> if truthy v then v else Some (JObj []))"

text \<open>\<open>(v || [])\<close> as the receiver of an array method.\<close>

definition or_empty_array :: "jsval \<Rightarrow> string \<Rightarrow> js_error + json list" where
  "or_empty_array v method = (if truthy v then receiver_array v method else Inr [])"

text \<open>The preamble built from the summary (it is the first message sent).\<close>

definition chat_context :: "jsval \<Rightarrow> jsval \<Rightarrow> js_error + string" where
  "chat_context instructor summary =
     bind_js (get_prop summary ''total_responses'') (\<lambda>total_responses.
     bind_js (get_prop summary ''average_rating'') (\<lambda>average_rating.
     bind_js (get_prop summary ''avg_sentiment_percentage'') (\<lambda>avg_sentiment_percentage.
     bind_js (get_prop summary ''key_themes_count'') (\<lambda>key_themes_count.
     bind_js (get_prop summary ''top_praise_areas'') (\<lambda>top_praise_areas.
     bind_js (or_empty_array top_praise_areas ''map'') (\<lambda>praise.
     bind_js (get_prop summary ''improvement_areas'') (\<lambda>improvement_areas.
     bind_js (or_empty_array improvement_areas ''map'') (\<lambda>improvements.
     bind_js (get_prop summary ''recommendations'') (\<lambda>recommendations.
     bind_js (or_empty_array recommendations ''join'') (\<lambda>recs.
       Inr (''You are an AI teaching assistant helping '' @ or_text instructor ''an instructor''
            @ '' understand their student feedback.'' @ nl @ nl
            @ ''FEEDBACK ANALYSIS SUMMARY:'' @ nl
            @ ''- Total Responses: '' @ or_text total_responses ''0'' @ nl
            @ ''- Average Rating: '' @ or_text average_rating ''0'' @ ''/5'' @ nl
            @ ''- Positive Sentiment: '' @ or_text avg_sentiment_percentage ''0'' @ ''%'' @ nl
            @ ''- Key Themes: '' @ or_text key_themes_count ''0'' @ nl @ nl
            @ ''TOP PRAISE AREAS:'' @ nl
            @ join nl (numbered 0 praise) @ nl @ nl
            @ ''AREAS FOR IMPROVEMENT:'' @ nl
            @ join nl (numbered 0 improvements) @ nl @ nl
            @ ''RECOMMENDATIONS:'' @ nl
            @ join nl (map (\<lambda>r. element_text (Some r)) recs) @ nl @ nl
            @ ''Based on this feedback analysis, provide helpful, actionable advice to the instructor. Be specific, supportive, and focused on practical improvements.'')))))))))))"

text \<open>\<open>conversationHistory.slice(-4).map(msg => ({role: ..., content: msg.content}))\<close>.\<close>

definition history_message :: "json \<Rightarrow> js_error + chat_message" where
  "history_message msg =
     bind_js (get_prop (Some msg) ''role'') (\<lambda>role.
     bind_js (get_prop (Some msg) ''content'') (\<lambda>content.
       Inr (if role = Some (JStr ''assistant'') then ''assistant'' else ''user'', content)))"

fun history_messages :: "json list \<Rightarrow> js_error + chat_message list" where
  "history_messages [] = Inr []"
| "history_messages (msg # msgs) =
     bind_js (history_message msg) (\<lambda>m.
     bind_js (history_messages msgs) (\<lambda>ms. Inr (m # ms)))"

definition recent_history :: "jsval \<Rightarrow> js_error + chat_message list" where
  "recent_history conversationHistory =
     bind_js (receiver_array conversationHistory ''slice'') (\<lambda>msgs.
       history_messages (drop (length msgs - 4) msgs))"

text \<open>\<open>v[0]\<close> on a value that is neither \<open>undefined\<close> nor \<open>null\<close>.\<close>

fun index0 :: "jsval \<Rightarrow> jsval" where
  "index0 (Some (JArr (x # xs))) = Some x"
| "index0 (Some (JStr (c # cs))) = Some (JStr [c])"
| "index0 (Some (JObj kvs)) = map_of (rev kvs) ''0''"
| "index0 v = None"

text \<open>The \<open>try\<close> block: the reply on success, what is thrown otherwise.\<close>

definition chat_try ::
  "(chat_message list \<Rightarrow> fetch_outcome) \<Rightarrow> jsval \<Rightarrow> jsval \<Rightarrow> jsval \<Rightarrow> jsval \<Rightarrow> js_error + result" where
  "chat_try llm message analysisData instructor conversationHistory =
     (let summary = chat_summary analysisData in
      bind_js (chat_context instructor summary) (\<lambda>context.
      bind_js (recent_history conversationHistory) (\<lambda>history.
        (case llm ((''user'', Some (JStr context)) # history @ [(''user'', message)]) of
           FetchRejected m \<Rightarrow> Inl (TypeError m)
         | NotJson m \<Rightarrow> Inl (Error m)
         | Parsed aiData \<Rightarrow>
             bind_js (get_prop (Some aiData) ''content'') (\<lambda>content.
               if truthy content \<and> truthy (index0 content) then
                 bind_js (get_prop (index0 content) ''text'') (\<lambda>text.
                   Inr (Responded 200 (ChatBody text)))
               else Inl (Error ''Invalid response from AI''))))))"

text \<open>
  Scopes.  The handler's parameters and the names destructured from the request body are
  bound for the whole function; \<open>const summary\<close>, \<open>context\<close>, \<open>response\<close> and \<open>aiData\<close> are
  declared inside the \<open>try\<close> block and bound there only; the \<open>catch\<close> block binds \<open>err\<close>.
  The module declares no \<open>summary\<close>, and there is no global of that name.  A scope lists the
  JSON-valued bindings; reading a name that is not bound is a \<open>ReferenceError\<close>.
\<close>

type_synonym scope = "(string \<times> jsval) list"

definition handler_scope :: "jsval \<Rightarrow> jsval \<Rightarrow> jsval \<Rightarrow> jsval \<Rightarrow> scope" where
  "handler_scope message analysisData instructor conversationHistory =
     [ (''message'', message), (''analysisData'', analysisData),
       (''instructor'', instructor), (''conversationHistory'', conversationHistory) ]"

definition try_scope :: "scope \<Rightarrow> jsval \<Rightarrow> scope" where
  "try_scope outer summary = (''summary'', summary) # outer"

definition catch_scope :: "scope \<Rightarrow> js_error \<Rightarrow> scope" where
  "catch_scope outer err = (''err'', Some (JStr (error_message err))) # outer"

definition read_var :: "scope \<Rightarrow> string \<Rightarrow> js_error + jsval" where
  "read_var sc name =
     (case map_of sc name of
        None \<Rightarrow> Inl (ReferenceError (name @ '' is not defined''))
      | Some v \<Rightarrow> Inr v)"

text \<open>\<open>v?.[0] || d\<close> and \<open>(v || []).slice(0, 3).join(', ')\<close>.\<close>

definition first_or :: "jsval \<Rightarrow> string \<Rightarrow> string" where
  "first_or v d = (if v = None \<or> v = Some JNull then d else or_text (index0 v) d)"

definition first_three :: "jsval \<Rightarrow> js_error + string" where
  "first_three v =
     bind_js (or_empty_array v ''join'') (\<lambda>xs.
       Inr (join '', '' (map (\<lambda>x. element_text (Some x)) (take 3 xs))))"

text \<open>
  \<open>summary.average_rating >= 4\<close>, for a number (the coercion of other values to a number is
  not modelled: they compare as \<open>NaN\<close> does, false).
\<close>

definition at_least_four :: "jsval \<Rightarrow> bool" where
  "at_least_four v = (case v of Some (JNum n) \<Rightarrow> n \<ge> 4 | _ \<Rightarrow> False)"

definition to_lower_char :: "char \<Rightarrow> char" where
  "to_lower_char c =
     (let n = (of_char c :: nat)
      in if (65 \<le> n \<and> n \<le> 90) \<or> (192 \<le> n \<and> n \<le> 222 \<and> n \<noteq> 215) then char_of (n + 32) else c)"

definition toLowerCase :: "string \<Rightarrow> string" where
  "toLowerCase s = map to_lower_char s"

text \<open>
  The \<open>catch\<close> block: the five canned responses are built first, each from \<open>summary\<close> as the
  block reads it in its scope, then one is chosen by the keywords of the message.
\<close>

definition chat_catch :: "scope \<Rightarrow> result" where
  "chat_catch sc =
     settle
       (bind_js (read_var sc ''summary'') (\<lambda>summary.
        bind_js (get_prop summary ''top_praise_areas'') (\<lambda>top_praise_areas.
        bind_js (get_prop summary ''improvement_areas'') (\<lambda>improvement_areas.
        bind_js (first_three improvement_areas) (\<lambda>improvements3.
        bind_js (first_three top_praise_areas) (\<lambda>praise3.
        bind_js (get_prop summary ''average_rating'') (\<lambda>average_rating.
        bind_js (get_prop summary ''avg_sentiment_percentage'') (\<lambda>avg_sentiment_percentage.
        bind_js (get_prop summary ''total_responses'') (\<lambda>total_responses.
        bind_js (read_var sc ''message'') (\<lambda>message.
          (case message of
             Some (JStr text) \<Rightarrow>
               let teaching_style =
                     ''Based on the feedback, students appreciate ''
                     @ first_or top_praise_areas ''your teaching approach''
                     @ ''. Consider focusing on ''
                     @ first_or improvement_areas ''interactive activities''
                     @ '' to enhance engagement further.'';
                   improvement =
                     ''Key areas for improvement include: '' @ improvements3
                     @ ''. I recommend creating an action plan to address these points systematically.'';
                   positive =
                     ''Students particularly praised: '' @ praise3
                     @ ''. These are your strengths - continue building on them!'';
                   rating =
                     ''Your average rating is '' @ to_text average_rating @ ''/5 with ''
                     @ to_text avg_sentiment_percentage @ ''% positive sentiment. ''
                     @ (if at_least_four average_rating then ''This is excellent!''
                        else ''There is room for improvement in key areas.'');
                   default =
                     ''I can help you understand your feedback better. You have ''
                     @ to_text total_responses @ '' responses with an average rating of ''
                     @ to_text average_rating @ ''/5. Your strengths include ''
                     @ first_or top_praise_areas ''clear teaching''
                     @ '', and students suggest improving ''
                     @ first_or improvement_areas ''course materials'' @ ''.'';
                   lowerMessage = toLowerCase text;
                   response =
                     (if str_includes lowerMessage ''teaching'' \<or> str_includes lowerMessage ''style''
                        then teaching_style
                      else if str_includes lowerMessage ''improve'' \<or> str_includes lowerMessage ''better''
                        then improvement
                      else if str_includes lowerMessage ''positive'' \<or> str_includes lowerMessage ''good''
                              \<or> str_includes lowerMessage ''strength''
                        then positive
                      else if str_includes lowerMessage ''rating'' \<or> str_includes lowerMessage ''score''
                        then rating
                      else default)
               in Inr (Responded 200 (ChatBody (Some (JStr response))))
           | _ \<Rightarrow> Inl (TypeError ''message.toLowerCase is not a function''))))))))))))"

definition chat ::
  "(chat_message list \<Rightarrow> fetch_outcome) \<Rightarrow> jsval \<Rightarrow> jsval \<Rightarrow> jsval \<Rightarrow> jsval \<Rightarrow> result" where
  "chat llm message analysisData instructor conversationHistory =
     (if \<not> truthy message then Responded 400 (ErrorBody (JStr ''No message provided''))
      else
        let outer = handler_scope message analysisData instructor conversationHistory in
        (case chat_try llm message analysisData instructor conversationHistory of
           Inr r \<Rightarrow> r
         | Inl err \<Rightarrow> chat_catch (catch_scope outer err)))"

section \<open>Statements and example inputs\<close>

text \<open>
  A response that lists exactly \<open>n\<close> instructors, with pairwise distinct ids, each file name
  the id followed by the suffix.
\<close>

definition lists_instructors :: "result \<Rightarrow> nat \<Rightarrow> bool" where
  "lists_instructors r n =
     (case r of
        Responded st (InstructorsBody instructors msg) \<Rightarrow>
          st = 200 \<and> length instructors = n \<and> distinct (map inst_id instructors)
          \<and> list_all (\<lambda>i. inst_filename i = inst_id i @ feedback_suffix) instructors
      | _ \<Rightarrow> False)"

text \<open>The number of distinct instructor values of a column, after normalizing.\<close>

definition distinct_instructors :: "string list \<Rightarrow> nat" where
  "distinct_instructors column = length (remdups (map normalize_instructor column))"

text \<open>The file names of the instructors a response lists (none when it lists none).\<close>

definition listed_files :: "result \<Rightarrow> string list" where
  "listed_files r =
     (case r of
        Responded st (InstructorsBody instructors msg) \<Rightarrow> map inst_filename instructors
      | _ \<Rightarrow> [])"

text \<open>
  A server in \<open>/srv/app\<close> with both scripts in place, a runtime found, every child process
  closing with code 0 and the given standard output, and the given names in the
  instructor-data directory.
\<close>

definition example_env :: "string list \<Rightarrow> string list \<Rightarrow> string \<Rightarrow> json option \<Rightarrow> env" where
  "example_env present names out parsed =
     \<lparr> PYTHON_CMD = Some ''python3'',
       dirname = ''/srv/app'',
       existsSync = (\<lambda>p. p \<in> set ([''/srv/app/extract_instructor_data.py'', ''/srv/app/analyze.py''] @ present)),
       readdirSync = (\<lambda>d. if d = ''/srv/app/instructor_data'' then names else []),
       spawn_close = (\<lambda>cmd args. Closed (Some 0) out []),
       JSON_parse = (\<lambda>s. if s = out then parsed else None),
       toLocaleString = ''11/1/2026, 10:00:00 AM'',
       toISOString = ''2026-11-01T10:00:00.000Z'' \<rparr>"

definition example_csv :: upload_file where
  "example_csv =
     \<lparr> originalname = ''feedback.csv'', mimetype = ''text/csv'',
       path = ''/srv/app/uploads/feedback-1.csv'', fileSize = 2048 \<rparr>"

definition example_notes :: upload_file where
  "example_notes =
     \<lparr> originalname = ''notes.txt'', mimetype = ''text/plain'',
       path = ''/srv/app/uploads/feedback-2.txt'', fileSize = 2048 \<rparr>"

text \<open>The filename of an analyze request names a file that exists: it is a string, and the
  path joined from the instructor-data directory and the string exists.\<close>

definition names_existing_file :: "env \<Rightarrow> jsval \<Rightarrow> bool" where
  "names_existing_file e filename =
     (case filename of
        Some (JStr name) \<Rightarrow> existsSync e (path_join [instructorDataDir e, name])
      | _ \<Rightarrow> False)"

text \<open>The \<open>error\<close> member of a parsed value (\<open>undefined\<close> where it has none).\<close>

definition error_field :: "json \<Rightarrow> jsval" where
  "error_field parsed = (case parsed of JObj kvs \<Rightarrow> map_of (rev kvs) ''error'' | _ \<Rightarrow> None)"

text \<open>The path lies inside the directory.\<close>

definition inside_directory :: "string \<Rightarrow> string \<Rightarrow> bool" where
  "inside_directory dir p = startsWith p (dir @ ''/'')"

text \<open>
  An absolute path in normal form: a slash in front of every segment, no segment empty, a
  dot, two dots or with a slash in it.
\<close>

definition absolute_path :: "string list \<Rightarrow> string" where
  "absolute_path segs = concat (map (\<lambda>seg. CHR ''/'' # seg) segs)"

definition plain_segment :: "string \<Rightarrow> bool" where
  "plain_segment seg = (seg \<noteq> [] \<and> CHR ''/'' \<notin> set seg \<and> seg \<noteq> ''.'' \<and> seg \<noteq> ''..'')"

definition example_analysis :: json where
  "example_analysis =
     JObj [(''summary'',
            JObj [(''total_responses'', JNum 12), (''average_rating'', JNum 4),
                  (''avg_sentiment_percentage'', JNum 75), (''key_themes_count'', JNum 3),
                  (''top_praise_areas'', JArr [JStr ''clear explanations'', JStr ''kind'']),
                  (''improvement_areas'', JArr [JStr ''pace'']),
                  (''recommendations'', JArr [JStr ''slow down''])])]"

definition empty_summary :: json where
  "empty_summary = JObj [(''summary'', JObj [])]"

definition empty_summary_no_rows :: json where
  "empty_summary_no_rows = JObj [(''summary'', JObj []), (''individual_analysis'', JArr [])]"

section \<open>Properties\<close>

subsection \<open>The route that serves an upload\<close>

lemma find_route_upload:
  "find_route ''POST'' ''/api/upload'' app_stack =
     Some (UploadFirst,
       [ Route ''POST'' ''/api/analyze-instructor'' AnalyzeInstructor,
         Route ''GET'' ''/api/health'' Health,
         Route ''POST'' ''/api/download-report'' DownloadReport,
         ErrorMiddleware,
         Route ''POST'' ''/api/upload'' UploadSecond,
         Route ''POST'' ''/api/download-csv'' DownloadCsv,
         Route ''POST'' ''/api/chat'' Chat ])"
  by (simp add: app_stack_def)

lemma upload_endpoint_accepted:
  "upload_single part = Inr file \<Longrightarrow> upload_endpoint e part = upload_first e file"
  by (simp add: upload_endpoint_def find_route_upload)

lemma upload_endpoint_refused:
  "upload_single part = Inl error \<Longrightarrow> upload_endpoint e part = ([], error_middleware error)"
  by (simp add: upload_endpoint_def find_route_upload pass_error_def)

subsection \<open>Removing the suffix from a file name\<close>

text \<open>
  The suffix starts with its only underscore, so it cannot overlap itself: in a name that
  ends with the suffix and has no other occurrence of it, the first occurrence is the one at
  the end.
\<close>

lemma suffix_underscore_once: "CHR ''_'' \<notin> set (tl feedback_suffix)"
  by (simp add: feedback_suffix_def)

lemma startsWith_over_suffix:
  assumes "startsWith (n @ feedback_suffix) feedback_suffix" and "n \<noteq> []"
  shows "startsWith n feedback_suffix"
proof (cases "length feedback_suffix \<le> length n")
  case True
  with assms(1) show ?thesis by (simp add: startsWith_def)
next
  case False
  let ?S = feedback_suffix
  let ?k = "length n"
  have k: "0 < ?k" "?k < length ?S" using assms(2) False by auto
  have eq: "take (length ?S) (n @ ?S) = ?S" using assms(1) by (simp add: startsWith_def)
  have "(take (length ?S) (n @ ?S)) ! ?k = (n @ ?S) ! ?k" using k by (simp only: nth_take)
  also have "\<dots> = ?S ! 0" by (simp add: nth_append)
  also have "\<dots> = CHR ''_''" by (simp add: feedback_suffix_def)
  finally have "?S ! ?k = CHR ''_''" using eq by simp
  moreover obtain m where m: "?k = Suc m" using k by (cases ?k) auto
  moreover have lt: "m < length (tl ?S)" using k m by simp
  moreover from lt have "tl ?S ! m = ?S ! Suc m" by (rule nth_tl)
  moreover from lt have "tl ?S ! m \<in> set (tl ?S)" by (rule nth_mem)
  ultimately show ?thesis using suffix_underscore_once by simp
qed

lemma replace_first_suffix:
  "\<not> str_includes n feedback_suffix \<Longrightarrow> replace_first feedback_suffix [] (n @ feedback_suffix) = n"
proof (induction n)
  case Nil
  show ?case by (simp add: feedback_suffix_def startsWith_def)
next
  case (Cons a n)
  from Cons.prems have 1: "\<not> startsWith (a # n) feedback_suffix" and 2: "\<not> str_includes n feedback_suffix"
    by simp_all
  have "\<not> startsWith ((a # n) @ feedback_suffix) feedback_suffix"
    using startsWith_over_suffix[of "a # n"] 1 by blast
  then show ?case using Cons.IH[OF 2] by simp
qed

subsection \<open>The directory after a split\<close>

lemma endsWith_append: "endsWith (n @ s) s"
  by (simp add: endsWith_def)

lemma set_write_file: "set (write_file f dir) = insert f (set dir)"
  by (auto simp: write_file_def)

lemma distinct_write_file: "distinct dir \<Longrightarrow> distinct (write_file f dir)"
  by (simp add: write_file_def)

lemma set_split_by_instructor:
  "set (split_by_instructor column dir) = set dir \<union> instructor_file ` set column"
  unfolding split_by_instructor_def
  by (induction column arbitrary: dir) (auto simp: set_write_file)

lemma distinct_split_by_instructor:
  "distinct dir \<Longrightarrow> distinct (split_by_instructor column dir)"
  unfolding split_by_instructor_def
  by (induction column arbitrary: dir) (auto simp: distinct_write_file)

subsection \<open>The map of the second registration\<close>

lemma dedupe_by_id_seen:
  "set seen = set seen' \<Longrightarrow> dedupe_by_id seen is = dedupe_by_id seen' is"
proof (induction "is" arbitrary: seen seen')
  case Nil
  show ?case by simp
next
  case (Cons i "is")
  have "dedupe_by_id (inst_id i # seen) is = dedupe_by_id (inst_id i # seen') is"
    by (rule Cons.IH) (simp add: Cons.prems)
  moreover have "dedupe_by_id seen is = dedupe_by_id seen' is"
    by (rule Cons.IH) (rule Cons.prems)
  ultimately show ?case using Cons.prems by simp
qed

lemma register_file_fold:
  "map_values (fold register_file files m) =
     map_values m @ dedupe_by_id (map fst m) (map instructor_of_file files)"
proof (induction files arbitrary: m)
  case Nil
  show ?case by simp
next
  case (Cons f files)
  let ?b = "replace_first feedback_suffix [] f"
  show ?case
  proof (cases "map_has m ?b")
    case True
    then have "register_file f m = m" by (simp add: register_file_def)
    moreover from True have "inst_id (instructor_of_file f) \<in> set (map fst m)"
      by (simp add: map_has_def instructor_of_file_def)
    ultimately show ?thesis using Cons.IH[of m] by simp
  next
    case False
    then have r: "register_file f m = m @ [(?b, instructor_of_file f)]"
      by (simp add: register_file_def map_set_def instructor_of_file_def Let_def)
    from False have n: "inst_id (instructor_of_file f) \<notin> set (map fst m)"
      by (simp add: map_has_def instructor_of_file_def)
    have s: "dedupe_by_id (map fst (m @ [(?b, instructor_of_file f)])) (map instructor_of_file files)
           = dedupe_by_id (inst_id (instructor_of_file f) # map fst m) (map instructor_of_file files)"
      by (rule dedupe_by_id_seen) (auto simp: instructor_of_file_def)
    show ?thesis using Cons.IH[of "m @ [(?b, instructor_of_file f)]"] r n s
      by (simp add: map_values_def)
  qed
qed

lemma register_file_fold_empty:
  "map_values (fold register_file files []) = dedupe_by_id [] (map instructor_of_file files)"
  using register_file_fold[of files "[]"] by (simp add: map_values_def)

lemma sort_is_Nil: "(sort xs = []) = (xs = [])"
  by (metis length_sort length_0_conv)

lemma upload_second_listed_spec:
  "upload_second_listed names =
     (if filter (\<lambda>f. endsWith f feedback_suffix) names = [] then no_instructor_data
      else Responded 200 (InstructorsBody (spec_listing names) (found_message (spec_listing names))))"
  by (simp add: upload_second_listed_def spec_listing_def register_file_fold_empty sort_is_Nil Let_def)

lemma dedupe_by_id_distinct:
  "distinct (map inst_id is) \<Longrightarrow> set (map inst_id is) \<inter> set seen = {} \<Longrightarrow> dedupe_by_id seen is = is"
  by (induction "is" arbitrary: seen) auto

subsection \<open>A split that succeeds\<close>

lemma upload_with_split:
  assumes "PYTHON_CMD e = Some cmd" and "existsSync e (extractScript e)"
    and "spawn_close e cmd [extractScript e, path f] = Closed (Some 0) out err"
  shows "upload_with listed e (Some f) =
           ([Spawn cmd [extractScript e, path f], UnlinkFile (path f)],
            listed (readdirSync e (instructorDataDir e)))"
  using assms by (simp add: upload_with_def runPythonScript_def)

lemma instructor_of_file_simps:
  "inst_id (instructor_of_file f) = replace_first feedback_suffix [] f"
  "inst_filename (instructor_of_file f) = f"
  by (simp_all add: instructor_of_file_def)

lemma split_files:
  assumes "distinct dir"
    and "\<forall>d \<in> set dir. endsWith d feedback_suffix \<longrightarrow> d \<in> instructor_file ` set column"
  shows "set (filter (\<lambda>f. endsWith f feedback_suffix) (split_by_instructor column dir))
           = instructor_file ` set column"
    and "distinct (filter (\<lambda>f. endsWith f feedback_suffix) (split_by_instructor column dir))"
  using assms
  by (auto simp: set_split_by_instructor distinct_split_by_instructor instructor_file_def endsWith_append)

lemma length_split_files:
  assumes "distinct dir"
    and "\<forall>d \<in> set dir. endsWith d feedback_suffix \<longrightarrow> d \<in> instructor_file ` set column"
  shows "length (filter (\<lambda>f. endsWith f feedback_suffix) (split_by_instructor column dir))
           = distinct_instructors column"
proof -
  let ?files = "filter (\<lambda>f. endsWith f feedback_suffix) (split_by_instructor column dir)"
  have "length ?files = card (set ?files)"
    using distinct_card[OF split_files(2)[OF assms]] by (simp only:)
  also have "\<dots> = card ((\<lambda>n. n @ feedback_suffix) ` set (map normalize_instructor column))"
    using split_files(1)[OF assms] by (simp add: instructor_file_def image_image)
  also have "\<dots> = card (set (map normalize_instructor column))"
    by (rule card_image) (simp add: inj_on_def)
  also have "\<dots> = distinct_instructors column"
    by (simp add: distinct_instructors_def length_remdups_card_conv)
  finally show ?thesis .
qed

lemma entries_of_plain_files:
  assumes "distinct files"
    and "\<forall>f \<in> set files. \<exists>n. f = n @ feedback_suffix \<and> \<not> str_includes n feedback_suffix"
  shows "distinct (map inst_id (map instructor_of_file files))"
    and "list_all (\<lambda>i. inst_filename i = inst_id i @ feedback_suffix) (map instructor_of_file files)"
proof -
  have id: "f = inst_id (instructor_of_file f) @ feedback_suffix" if "f \<in> set files" for f
    using assms(2) that by (auto simp: instructor_of_file_simps replace_first_suffix)
  have "inj_on (\<lambda>f. inst_id (instructor_of_file f)) (set files)"
    by (rule inj_onI) (metis id)
  then show "distinct (map inst_id (map instructor_of_file files))"
    using assms(1) by (simp add: distinct_map comp_def)
  show "list_all (\<lambda>i. inst_filename i = inst_id i @ feedback_suffix) (map instructor_of_file files)"
    using id by (simp add: list_all_iff instructor_of_file_simps(2))
qed

lemma upload_first_listed_plain:
  assumes "files = filter (\<lambda>f. endsWith f feedback_suffix) names"
    and "files \<noteq> []" and "distinct files"
    and "\<forall>f \<in> set files. \<exists>n. f = n @ feedback_suffix \<and> \<not> str_includes n feedback_suffix"
  shows "lists_instructors (upload_first_listed names) (length files)"
  using assms entries_of_plain_files[OF assms(3,4)]
  by (simp add: upload_first_listed_def lists_instructors_def Let_def)

lemma upload_second_listed_plain:
  assumes "files = filter (\<lambda>f. endsWith f feedback_suffix) names"
    and "files \<noteq> []" and "distinct files"
    and "\<forall>f \<in> set files. \<exists>n. f = n @ feedback_suffix \<and> \<not> str_includes n feedback_suffix"
  shows "lists_instructors (upload_second_listed names) (length files)"
proof -
  have d: "distinct (sort files)" and s: "\<forall>f \<in> set (sort files). \<exists>n. f = n @ feedback_suffix \<and> \<not> str_includes n feedback_suffix"
    using assms(3,4) by simp_all
  note e = entries_of_plain_files[OF d s]
  have "dedupe_by_id [] (map instructor_of_file (sort files)) = map instructor_of_file (sort files)"
    by (rule dedupe_by_id_distinct) (use e(1) in simp_all)
  then have "spec_listing names = map instructor_of_file (sort files)"
    by (simp add: spec_listing_def assms(1))
  then show ?thesis
    using e assms(1,2) by (simp add: upload_second_listed_spec lists_instructors_def)
qed

subsection \<open>The example server\<close>

lemma example_env_simps:
  "PYTHON_CMD (example_env present names out parsed) = Some ''python3''"
  "dirname (example_env present names out parsed) = ''/srv/app''"
  "extractScript (example_env present names out parsed) = ''/srv/app/extract_instructor_data.py''"
  "analyzeScript (example_env present names out parsed) = ''/srv/app/analyze.py''"
  "instructorDataDir (example_env present names out parsed) = ''/srv/app/instructor_data''"
  "readdirSync (example_env present names out parsed) ''/srv/app/instructor_data'' = names"
  "spawn_close (example_env present names out parsed) cmd args = Closed (Some 0) out []"
  "existsSync (example_env present names out parsed) ''/srv/app/extract_instructor_data.py''"
  "existsSync (example_env present names out parsed) ''/srv/app/analyze.py''"
  by (simp_all add: example_env_def extractScript_def analyzeScript_def instructorDataDir_def
      path_join_def path_normalize_def)

lemma example_csv_accepted: "upload_single (Some example_csv) = Inr (Some example_csv)"
  by (simp add: upload_single_def fileFilter_def example_csv_def fileSize_limit_def)

lemma example_upload:
  "snd (upload_endpoint (example_env present names out parsed) (Some example_csv))
     = upload_first_listed names"
  "snd (upload_second (example_env present names out parsed) (Some example_csv))
     = upload_second_listed names"
  by (simp_all add: upload_endpoint_accepted[OF example_csv_accepted] upload_first_def
      upload_second_def
      upload_with_split[where cmd = "''python3''" and out = out and err = "[]"]
      example_env_simps)

lemma example_paths:
  "path_join [''/srv/app/instructor_data'', ''Ann_Lee_feedback.csv'']
     = ''/srv/app/instructor_data/Ann_Lee_feedback.csv''"
  "path_join [''/srv/app/instructor_data'', ''Nobody_feedback.csv'']
     = ''/srv/app/instructor_data/Nobody_feedback.csv''"
  by (simp_all add: path_join_def path_normalize_def)

lemma example_env_exists:
  "existsSync (example_env present names out parsed) p
     = (p \<in> set ([''/srv/app/extract_instructor_data.py'', ''/srv/app/analyze.py''] @ present))"
  "JSON_parse (example_env present names out parsed) out = parsed"
  by (simp_all add: example_env_def)

lemma example_env_no_runtime:
  "PYTHON_CMD ((example_env present names out parsed)\<lparr>PYTHON_CMD := None\<rparr>) = None"
  "toISOString ((example_env present names out parsed)\<lparr>PYTHON_CMD := None\<rparr>) = ''2026-11-01T10:00:00.000Z''"
  "instructorDataDir ((example_env present names out parsed)\<lparr>PYTHON_CMD := None\<rparr>) = ''/srv/app/instructor_data''"
  "existsSync ((example_env present names out parsed)\<lparr>PYTHON_CMD := None\<rparr>) p
     = (p \<in> set ([''/srv/app/extract_instructor_data.py'', ''/srv/app/analyze.py''] @ present))"
  by (simp_all add: example_env_def instructorDataDir_def path_join_def path_normalize_def)

lemma listed_files_first:
  "listed_files (upload_first_listed names) = filter (\<lambda>f. endsWith f feedback_suffix) names"
  by (simp add: upload_first_listed_def listed_files_def no_instructor_data_def Let_def
      instructor_of_file_simps comp_def)

subsection \<open>The instructor list of an upload\<close>

text \<open>
  C1 (as amended).  Take an upload that passes the filter, with the runtime found, the split
  script present and the split closing with code 0, and a column of at least one instructor
  value, none of which contains the suffix \<open>_feedback.csv\<close> after normalizing.  Let the
  directory hold, before the split, no file with the suffix other than files the split
  writes again.  Then the response lists exactly as many instructors as the column has
  distinct normalized values, their ids are pairwise distinct, and every file name is the id
  followed by \<open>_feedback.csv\<close>.  This holds for the route that serves the upload and for
  the second registration alike.
\<close>

theorem upload_lists_split_instructors:
  assumes "upload_single part = Inr (Some f)"
    and "PYTHON_CMD e = Some cmd"
    and "existsSync e (extractScript e)"
    and "spawn_close e cmd [extractScript e, path f] = Closed (Some 0) out err"
    and "readdirSync e (instructorDataDir e) = split_by_instructor column dir"
    and "column \<noteq> []"
    and "distinct dir"
    and "\<forall>d \<in> set dir. endsWith d feedback_suffix \<longrightarrow> d \<in> instructor_file ` set column"
    and "\<forall>v \<in> set column. \<not> str_includes (normalize_instructor v) feedback_suffix"
  shows "lists_instructors (snd (upload_endpoint e part)) (distinct_instructors column)
       \<and> lists_instructors (snd (upload_second e (Some f))) (distinct_instructors column)"
proof -
  let ?names = "split_by_instructor column dir"
  let ?files = "filter (\<lambda>f. endsWith f feedback_suffix) ?names"
  note sf = split_files[OF assms(7,8)]
  have ne: "?files \<noteq> []"
    using sf(1) assms(6) by (metis image_is_empty set_empty)
  have plain: "\<forall>f \<in> set ?files. \<exists>n. f = n @ feedback_suffix \<and> \<not> str_includes n feedback_suffix"
    using sf(1) assms(9) by (auto simp: instructor_file_def)
  have len: "length ?files = distinct_instructors column"
    by (rule length_split_files[OF assms(7,8)])
  have 1: "lists_instructors (upload_first_listed ?names) (distinct_instructors column)"
    using upload_first_listed_plain[OF refl ne sf(2) plain] len by simp
  have 2: "lists_instructors (upload_second_listed ?names) (distinct_instructors column)"
    using upload_second_listed_plain[OF refl ne sf(2) plain] len by simp
  show ?thesis
    using 1 2 assms(5)
    by (simp add: upload_endpoint_accepted[OF assms(1)] upload_first_def upload_second_def
        upload_with_split[OF assms(2,3,4)])
qed

text \<open>
  The theorem at work: three rows for two instructors (\<open>Ann Lee\<close> and \<open>Ann_Lee\<close> normalize
  alike), uploaded to a directory that holds an unrelated file.
\<close>

theorem upload_lists_split_instructors_witness:
  "lists_instructors
     (snd (upload_endpoint
        (example_env [] (split_by_instructor [''Ann Lee'', ''Bob'', ''Ann_Lee''] [''notes.txt'']) [] None)
        (Some example_csv))) 2
   \<and> lists_instructors
     (snd (upload_second
        (example_env [] (split_by_instructor [''Ann Lee'', ''Bob'', ''Ann_Lee''] [''notes.txt'']) [] None)
        (Some example_csv))) 2"
  using upload_lists_split_instructors
    [of "Some example_csv" example_csv
        "example_env [] (split_by_instructor [''Ann Lee'', ''Bob'', ''Ann_Lee''] [''notes.txt'']) [] None"
        "''python3''" "[]" "[]" "[''Ann Lee'', ''Bob'', ''Ann_Lee'']" "[''notes.txt'']"]
  by (simp add: example_csv_accepted example_env_simps distinct_instructors_def
      normalize_instructor_def feedback_suffix_def startsWith_def endsWith_def numeral_2_eq_2)

text \<open>
  Why C1 needs its conditions.  A file an earlier upload left in the directory is listed
  too; an instructor value that contains the suffix gets an id that is not the file name
  without its suffix; a column without values is answered with the 400 response.
\<close>

theorem upload_list_counterexample:
  "\<not> lists_instructors
       (snd (upload_endpoint
          (example_env [] (split_by_instructor [''Ann Lee''] [''Old_Prof_feedback.csv'']) [] None)
          (Some example_csv)))
       (distinct_instructors [''Ann Lee''])
   \<and> \<not> lists_instructors
       (snd (upload_endpoint
          (example_env [] (split_by_instructor [''_feedback.csvx''] []) [] None)
          (Some example_csv)))
       (distinct_instructors [''_feedback.csvx''])
   \<and> \<not> lists_instructors
       (snd (upload_endpoint (example_env [] (split_by_instructor [] []) [] None) (Some example_csv)))
       (distinct_instructors [])"
  by (simp add: example_upload upload_first_listed_def lists_instructors_def
      distinct_instructors_def split_by_instructor_def write_file_def instructor_file_def
      normalize_instructor_def feedback_suffix_def endsWith_def startsWith_def
      instructor_of_file_def no_instructor_data_def Let_def)

subsection \<open>Order and duplicates in the list\<close>

text \<open>
  The second registration does what the wording of the spec says: the files with the suffix,
  sorted, one entry each, a later entry with an id already seen dropped.
\<close>

lemma upload_second_follows_spec:
  assumes "upload_single part = Inr (Some f)"
    and "PYTHON_CMD e = Some cmd"
    and "existsSync e (extractScript e)"
    and "spawn_close e cmd [extractScript e, path f] = Closed (Some 0) out err"
    and "filter (\<lambda>f. endsWith f feedback_suffix) (readdirSync e (instructorDataDir e)) \<noteq> []"
  shows "snd (upload_second e (Some f)) =
           Responded 200
             (InstructorsBody (spec_listing (readdirSync e (instructorDataDir e)))
                (found_message (spec_listing (readdirSync e (instructorDataDir e)))))"
  using assms(5)
  by (simp add: upload_second_def upload_with_split[OF assms(2,3,4)] upload_second_listed_spec)

text \<open>
  C2.  The route that serves \<open>POST /api/upload\<close> is the first registration, which neither
  sorts nor deduplicates.  For a directory read as \<open>Bob_Ray_feedback.csv\<close>,
  \<open>Ann_Lee_feedback.csv\<close> the response lists Bob Ray before Ann Lee, where the sorted
  listing of the spec has Ann Lee first; and for two file names that give the same id both
  entries are returned, where the spec's listing keeps the first only.
\<close>

theorem upload_endpoint_unsorted_duplicates:
  "snd (upload_endpoint
          (example_env [] [''Bob_Ray_feedback.csv'', ''Ann_Lee_feedback.csv''] [] None)
          (Some example_csv))
     = Responded 200
         (InstructorsBody
            [\<lparr>inst_id = ''Bob_Ray'', inst_name = ''Bob Ray'', inst_filename = ''Bob_Ray_feedback.csv''\<rparr>,
             \<lparr>inst_id = ''Ann_Lee'', inst_name = ''Ann Lee'', inst_filename = ''Ann_Lee_feedback.csv''\<rparr>]
            ''Found 2 instructors'')
   \<and> spec_listing [''Bob_Ray_feedback.csv'', ''Ann_Lee_feedback.csv'']
     = [\<lparr>inst_id = ''Ann_Lee'', inst_name = ''Ann Lee'', inst_filename = ''Ann_Lee_feedback.csv''\<rparr>,
        \<lparr>inst_id = ''Bob_Ray'', inst_name = ''Bob Ray'', inst_filename = ''Bob_Ray_feedback.csv''\<rparr>]
   \<and> map inst_id (map instructor_of_file
         [''_feedback.csvx_feedback.csv'', ''x_feedback.csv_feedback.csv''])
     = [''x_feedback.csv'', ''x_feedback.csv'']
   \<and> listed_files (snd (upload_endpoint
          (example_env [] [''_feedback.csvx_feedback.csv'', ''x_feedback.csv_feedback.csv''] [] None)
          (Some example_csv)))
     = [''_feedback.csvx_feedback.csv'', ''x_feedback.csv_feedback.csv'']
   \<and> map inst_filename (spec_listing [''_feedback.csvx_feedback.csv'', ''x_feedback.csv_feedback.csv''])
     = [''_feedback.csvx_feedback.csv'']"
proof -
  have s1: "sort [''Bob_Ray_feedback.csv'', ''Ann_Lee_feedback.csv'']
              = [''Ann_Lee_feedback.csv'', ''Bob_Ray_feedback.csv'']"
    by code_simp
  have s2: "sort [''_feedback.csvx_feedback.csv'', ''x_feedback.csv_feedback.csv'']
              = [''_feedback.csvx_feedback.csv'', ''x_feedback.csv_feedback.csv'']"
    by code_simp
  have f1: "filter (\<lambda>f. endsWith f feedback_suffix) [''Bob_Ray_feedback.csv'', ''Ann_Lee_feedback.csv'']
              = [''Bob_Ray_feedback.csv'', ''Ann_Lee_feedback.csv'']"
    by (simp add: endsWith_def feedback_suffix_def)
  have f2: "filter (\<lambda>f. endsWith f feedback_suffix)
              [''_feedback.csvx_feedback.csv'', ''x_feedback.csv_feedback.csv'']
              = [''_feedback.csvx_feedback.csv'', ''x_feedback.csv_feedback.csv'']"
    by (simp add: endsWith_def feedback_suffix_def)
  have i: "instructor_of_file ''Bob_Ray_feedback.csv''
             = \<lparr>inst_id = ''Bob_Ray'', inst_name = ''Bob Ray'', inst_filename = ''Bob_Ray_feedback.csv''\<rparr>"
          "instructor_of_file ''Ann_Lee_feedback.csv''
             = \<lparr>inst_id = ''Ann_Lee'', inst_name = ''Ann Lee'', inst_filename = ''Ann_Lee_feedback.csv''\<rparr>"
          "inst_id (instructor_of_file ''_feedback.csvx_feedback.csv'') = ''x_feedback.csv''"
          "inst_id (instructor_of_file ''x_feedback.csv_feedback.csv'') = ''x_feedback.csv''"
    by (simp_all add: instructor_of_file_def feedback_suffix_def startsWith_def
        underscores_to_spaces_def)
  have m: "found_message [a, b] = ''Found 2 instructors''" for a b
    by (simp add: found_message_def digit_char_def)
  have c1: "snd (upload_endpoint
          (example_env [] [''Bob_Ray_feedback.csv'', ''Ann_Lee_feedback.csv''] [] None)
          (Some example_csv))
     = Responded 200
         (InstructorsBody
            [\<lparr>inst_id = ''Bob_Ray'', inst_name = ''Bob Ray'', inst_filename = ''Bob_Ray_feedback.csv''\<rparr>,
             \<lparr>inst_id = ''Ann_Lee'', inst_name = ''Ann Lee'', inst_filename = ''Ann_Lee_feedback.csv''\<rparr>]
            ''Found 2 instructors'')"
    unfolding example_upload upload_first_listed_def f1 by (simp add: i m)
  have c2: "spec_listing [''Bob_Ray_feedback.csv'', ''Ann_Lee_feedback.csv'']
     = [\<lparr>inst_id = ''Ann_Lee'', inst_name = ''Ann Lee'', inst_filename = ''Ann_Lee_feedback.csv''\<rparr>,
        \<lparr>inst_id = ''Bob_Ray'', inst_name = ''Bob Ray'', inst_filename = ''Bob_Ray_feedback.csv''\<rparr>]"
    unfolding spec_listing_def f1 s1 by (simp add: i)
  have c3: "map inst_id (map instructor_of_file
         [''_feedback.csvx_feedback.csv'', ''x_feedback.csv_feedback.csv''])
     = [''x_feedback.csv'', ''x_feedback.csv'']"
    by (simp add: i)
  have c4: "listed_files (snd (upload_endpoint
          (example_env [] [''_feedback.csvx_feedback.csv'', ''x_feedback.csv_feedback.csv''] [] None)
          (Some example_csv)))
     = [''_feedback.csvx_feedback.csv'', ''x_feedback.csv_feedback.csv'']"
    unfolding example_upload listed_files_first f2 by (rule refl)
  have c5: "map inst_filename (spec_listing [''_feedback.csvx_feedback.csv'', ''x_feedback.csv_feedback.csv''])
     = [''_feedback.csvx_feedback.csv'']"
    unfolding spec_listing_def f2 s2 by (simp add: i instructor_of_file_simps(2))
  from c1 c2 c3 c4 c5 show ?thesis by (intro conjI)
qed

subsection \<open>The list depends on the directory\<close>

text \<open>
  C10.  Two uploads of the same CSV, both split with success, into directories of which one
  holds a file with the suffix that the other lacks and that the split does not write: the
  first response lists that file, the second does not, so the two responses differ.
\<close>

theorem upload_depends_on_directory:
  assumes "upload_single part = Inr (Some f)"
    and "PYTHON_CMD e1 = Some cmd1" and "PYTHON_CMD e2 = Some cmd2"
    and "existsSync e1 (extractScript e1)" and "existsSync e2 (extractScript e2)"
    and "spawn_close e1 cmd1 [extractScript e1, path f] = Closed (Some 0) out1 err1"
    and "spawn_close e2 cmd2 [extractScript e2, path f] = Closed (Some 0) out2 err2"
    and "readdirSync e1 (instructorDataDir e1) = split_by_instructor column dir1"
    and "readdirSync e2 (instructorDataDir e2) = split_by_instructor column dir2"
    and "old \<in> set dir1" and "old \<notin> set dir2"
    and "endsWith old feedback_suffix" and "old \<notin> instructor_file ` set column"
  shows "old \<in> set (listed_files (snd (upload_endpoint e1 part)))
       \<and> old \<notin> set (listed_files (snd (upload_endpoint e2 part)))
       \<and> snd (upload_endpoint e1 part) \<noteq> snd (upload_endpoint e2 part)"
proof -
  have r1: "snd (upload_endpoint e1 part) = upload_first_listed (split_by_instructor column dir1)"
    using assms(8)
    by (simp add: upload_endpoint_accepted[OF assms(1)] upload_first_def
        upload_with_split[OF assms(2,4,6)])
  have r2: "snd (upload_endpoint e2 part) = upload_first_listed (split_by_instructor column dir2)"
    using assms(9)
    by (simp add: upload_endpoint_accepted[OF assms(1)] upload_first_def
        upload_with_split[OF assms(3,5,7)])
  have 1: "old \<in> set (listed_files (snd (upload_endpoint e1 part)))"
    using assms(10,12) by (simp add: r1 listed_files_first set_split_by_instructor)
  have 2: "old \<notin> set (listed_files (snd (upload_endpoint e2 part)))"
    using assms(11,13) by (simp add: r2 listed_files_first set_split_by_instructor)
  from 1 2 show ?thesis by auto
qed

theorem upload_depends_on_directory_witness:
  "''Old_Prof_feedback.csv'' \<in> set (listed_files (snd (upload_endpoint
       (example_env [] (split_by_instructor [''Ann Lee''] [''Old_Prof_feedback.csv'']) [] None)
       (Some example_csv))))
   \<and> ''Old_Prof_feedback.csv'' \<notin> set (listed_files (snd (upload_endpoint
       (example_env [] (split_by_instructor [''Ann Lee''] []) [] None)
       (Some example_csv))))
   \<and> snd (upload_endpoint
       (example_env [] (split_by_instructor [''Ann Lee''] [''Old_Prof_feedback.csv'']) [] None)
       (Some example_csv))
     \<noteq> snd (upload_endpoint
       (example_env [] (split_by_instructor [''Ann Lee''] []) [] None)
       (Some example_csv))"
  using upload_depends_on_directory
    [of "Some example_csv" example_csv
        "example_env [] (split_by_instructor [''Ann Lee''] [''Old_Prof_feedback.csv'']) [] None"
        "''python3''"
        "example_env [] (split_by_instructor [''Ann Lee''] []) [] None"
        "''python3''" "[]" "[]" "[]" "[]" "[''Ann Lee'']" "[''Old_Prof_feedback.csv'']" "[]"
        "''Old_Prof_feedback.csv''"]
  by (simp add: example_csv_accepted example_env_simps instructor_file_def
      normalize_instructor_def feedback_suffix_def endsWith_def)

subsection \<open>A file that is not a CSV\<close>

text \<open>
  What the filter and the size limit of \<open>multer\<close> lead to: a refused file is answered by the
  error middleware below the route, before the handler runs; only the size limit is mapped
  to 400 there.
\<close>

lemma refused_file:
  assumes "\<not> fileFilter file"
  shows "upload_endpoint e (Some file)
           = ([], Responded 500 (ErrorBody (JStr ''Only CSV files are allowed!'')))"
  using assms
  by (simp add: upload_endpoint_refused[of _ "Error ''Only CSV files are allowed!''"]
      upload_single_def error_middleware_def)

lemma oversized_file:
  assumes "fileFilter file" and "fileSize file > fileSize_limit"
  shows "upload_endpoint e (Some file)
           = ([], Responded 400 (ErrorBody (JStr ''File size too large. Maximum size is 10MB.'')))"
  using assms
  by (simp add: upload_endpoint_refused[of _ "MulterError ''LIMIT_FILE_SIZE'' ''File too large''"]
      upload_single_def error_middleware_def)

lemma no_file:
  "upload_endpoint e None = ([], Responded 400 (ErrorBody (JStr ''No file uploaded'')))"
  by (simp add: upload_endpoint_accepted[of None None] upload_single_def upload_first_def
      upload_with_def)

text \<open>
  C7.  A file with MIME type \<open>text/plain\<close> and name \<open>notes.txt\<close> is rejected, no process
  spawned and no file touched by the handler, and the status of the rejection is 500.
\<close>

theorem non_csv_upload_is_500:
  "mimetype example_notes \<noteq> ''text/csv''
   \<and> path_extname (originalname example_notes) \<noteq> ''.csv''
   \<and> upload_endpoint (example_env [] [] [] None) (Some example_notes)
       = ([], Responded 500 (ErrorBody (JStr ''Only CSV files are allowed!'')))"
proof -
  have x: "path_extname ''notes.txt'' = ''.txt''"
    by (simp add: path_extname_def basename_segment_def)
  have "\<not> fileFilter example_notes"
    by (simp add: fileFilter_def example_notes_def x)
  then show ?thesis
    by (simp add: refused_file) (simp add: example_notes_def x)
qed

subsection \<open>Analyzing the file of one instructor\<close>

lemma analyze_instructor_string:
  assumes "name \<noteq> []" and "PYTHON_CMD e = Some cmd"
  shows "analyze_instructor e (Some (JStr name)) =
     (if \<not> existsSync e (path_join [instructorDataDir e, name]) then
        ([], Responded 404 (ErrorBody (JStr ''Instructor file not found'')))
      else if \<not> existsSync e (analyzeScript e) then
        ([], Responded 500 (ErrorBody (JStr ''analyze.py not found in server directory.'')))
      else
        ([Spawn cmd [analyzeScript e, path_join [instructorDataDir e, name]]],
         (case runPythonScript e cmd (analyzeScript e) [path_join [instructorDataDir e, name]] of
            Inl err \<Rightarrow> analyze_catch_rejection e err
          | Inr output \<Rightarrow>
              (case JSON_parse e output of
                 None \<Rightarrow> analyze_catch_thrown
               | Some parsed \<Rightarrow>
                   (case get_prop (Some parsed) ''error'' of
                      Inl error \<Rightarrow> analyze_catch_thrown
                    | Inr v \<Rightarrow>
                        if truthy v then Responded 400 (ErrorBody (the v))
                        else Responded 200 (AnalysisBody parsed (JStr name)))))))"
  using assms by (simp add: analyze_instructor_def Let_def)

text \<open>
  C5 (as amended).  A request whose filename does not name an existing file, that is, it
  is not a string or the path joined from the instructor-data directory and the string does
  not exist, never spawns a process; and when the filename is a non-empty string and a
  runtime command is cached, the response is 404.
\<close>

theorem analyze_missing_file:
  "(\<not> names_existing_file e filename \<longrightarrow> fst (analyze_instructor e filename) = [])
   \<and> (filename = Some (JStr name) \<and> name \<noteq> [] \<and> PYTHON_CMD e \<noteq> None
        \<and> \<not> names_existing_file e filename
      \<longrightarrow> analyze_instructor e filename
            = ([], Responded 404 (ErrorBody (JStr ''Instructor file not found''))))"
proof (intro conjI impI)
  assume n: "\<not> names_existing_file e filename"
  show "fst (analyze_instructor e filename) = []"
  proof (cases "truthy filename")
    case False
    then show ?thesis by (simp add: analyze_instructor_def)
  next
    case True
    show ?thesis
    proof (cases "PYTHON_CMD e")
      case None
      with True show ?thesis by (simp add: analyze_instructor_def)
    next
      case (Some cmd)
      show ?thesis
      proof (cases filename)
        case None
        with True show ?thesis by simp
      next
        case (Some j)
        with n True \<open>PYTHON_CMD e = Some cmd\<close> show ?thesis
          by (cases j) (simp_all add: analyze_instructor_def names_existing_file_def)
      qed
    qed
  qed
next
  assume a: "filename = Some (JStr name) \<and> name \<noteq> [] \<and> PYTHON_CMD e \<noteq> None
        \<and> \<not> names_existing_file e filename"
  then obtain cmd where c: "PYTHON_CMD e = Some cmd" by auto
  from a have f: "filename = Some (JStr name)" and n: "name \<noteq> []" by simp_all
  from a f have "\<not> existsSync e (path_join [instructorDataDir e, name])"
    by (simp add: names_existing_file_def)
  then show "analyze_instructor e filename
            = ([], Responded 404 (ErrorBody (JStr ''Instructor file not found'')))"
    by (simp add: f analyze_instructor_string[OF n c])
qed

theorem analyze_missing_file_witness:
  "\<not> names_existing_file (example_env [] [] [] None) (Some (JStr ''Nobody_feedback.csv''))
   \<and> analyze_instructor (example_env [] [] [] None) (Some (JStr ''Nobody_feedback.csv''))
       = ([], Responded 404 (ErrorBody (JStr ''Instructor file not found'')))"
  using analyze_missing_file
    [of "example_env [] [] [] None" "Some (JStr ''Nobody_feedback.csv'')" "''Nobody_feedback.csv''"]
  by (simp add: names_existing_file_def example_env_simps example_env_exists example_paths)

text \<open>
  Why C5 needs its conditions: without a cached runtime the same request is answered 500,
  and without a filename 400, both before the file is looked for.
\<close>

theorem analyze_missing_file_counterexample:
  "\<not> names_existing_file ((example_env [] [] [] None)\<lparr>PYTHON_CMD := None\<rparr>)
        (Some (JStr ''Nobody_feedback.csv''))
   \<and> analyze_instructor ((example_env [] [] [] None)\<lparr>PYTHON_CMD := None\<rparr>)
        (Some (JStr ''Nobody_feedback.csv''))
       = ([], Responded 500 (ErrorBody (JStr ''Python is not installed or not found in PATH.'')))
   \<and> \<not> names_existing_file (example_env [] [] [] None) None
   \<and> analyze_instructor (example_env [] [] [] None) None
       = ([], Responded 400 (ErrorBody (JStr ''Filename is required'')))"
  by (simp add: names_existing_file_def analyze_instructor_def example_env_no_runtime
      example_env_exists example_paths)

text \<open>
  C6 (as amended).  When the analysis process closes with code 0 and its output parses to a
  value other than \<open>null\<close>: the response is 400 with the value of the \<open>error\<close> member when
  that member is truthy, and otherwise 200 with the parsed value and the filename.
\<close>

theorem analyze_result_relayed:
  assumes "name \<noteq> []" and "PYTHON_CMD e = Some cmd"
    and "existsSync e (path_join [instructorDataDir e, name])"
    and "existsSync e (analyzeScript e)"
    and "spawn_close e cmd [analyzeScript e, path_join [instructorDataDir e, name]]
           = Closed (Some 0) out err"
    and "JSON_parse e out = Some parsed"
    and "parsed \<noteq> JNull"
  shows "snd (analyze_instructor e (Some (JStr name))) =
           (if truthy (error_field parsed) then Responded 400 (ErrorBody (the (error_field parsed)))
            else Responded 200 (AnalysisBody parsed (JStr name)))"
  using assms
  by (cases parsed)
     (simp_all add: analyze_instructor_string[OF assms(1,2)] runPythonScript_def error_field_def)

theorem analyze_result_relayed_witness:
  \<open>snd (analyze_instructor
          (example_env [''/srv/app/instructor_data/Ann_Lee_feedback.csv''] []
             ''{"error": "No feedback rows"}'' (Some (JObj [(''error'', JStr ''No feedback rows'')])))
          (Some (JStr ''Ann_Lee_feedback.csv'')))
     = Responded 400 (ErrorBody (JStr ''No feedback rows''))
   \<and> snd (analyze_instructor
          (example_env [''/srv/app/instructor_data/Ann_Lee_feedback.csv''] []
             ''{"summary": {}}'' (Some empty_summary))
          (Some (JStr ''Ann_Lee_feedback.csv'')))
     = Responded 200 (AnalysisBody empty_summary (JStr ''Ann_Lee_feedback.csv''))\<close>
  using analyze_result_relayed
    [of "''Ann_Lee_feedback.csv''"
        \<open>example_env [''/srv/app/instructor_data/Ann_Lee_feedback.csv''] []
             ''{"error": "No feedback rows"}'' (Some (JObj [(''error'', JStr ''No feedback rows'')]))\<close>
        "''python3''" \<open>''{"error": "No feedback rows"}''\<close> "[]"
        "JObj [(''error'', JStr ''No feedback rows'')]"]
    analyze_result_relayed
    [of "''Ann_Lee_feedback.csv''"
        \<open>example_env [''/srv/app/instructor_data/Ann_Lee_feedback.csv''] []
             ''{"summary": {}}'' (Some empty_summary)\<close>
        "''python3''" \<open>''{"summary": {}}''\<close> "[]" empty_summary]
  by (simp add: example_env_simps example_env_exists example_paths error_field_def
      empty_summary_def)

text \<open>
  Why C6 needs its conditions: an object whose \<open>error\<close> member is the empty string is
  relayed as a success, and the output \<open>null\<close> ends in the \<open>catch\<close> block with 500.
\<close>

theorem analyze_result_counterexample:
  \<open>snd (analyze_instructor
          (example_env [''/srv/app/instructor_data/Ann_Lee_feedback.csv''] []
             ''{"error": ""}'' (Some (JObj [(''error'', JStr [])])))
          (Some (JStr ''Ann_Lee_feedback.csv'')))
     = Responded 200 (AnalysisBody (JObj [(''error'', JStr [])]) (JStr ''Ann_Lee_feedback.csv''))
   \<and> snd (analyze_instructor
          (example_env [''/srv/app/instructor_data/Ann_Lee_feedback.csv''] [] ''null'' (Some JNull))
          (Some (JStr ''Ann_Lee_feedback.csv'')))
     = Responded 500 (ErrorDetails (JStr ''Analysis failed'') None None)\<close>
  by (simp add: analyze_instructor_string[where cmd = "''python3''"] example_env_simps
      example_env_exists example_paths runPythonScript_def analyze_catch_thrown_def)

subsection \<open>No runtime\<close>

text \<open>
  C8 (as amended).  With no cached runtime command, the health report has
  \<open>python_available\<close> false, an upload that carries an accepted file is answered 500, and
  an analyze request that carries a filename is answered 500 with the same message.
\<close>

theorem no_runtime:
  assumes "PYTHON_CMD e = None"
  shows "snd (health_check e)
           = Responded 200
               (HealthBody
                  \<lparr> status = ''warning'', timestamp = toISOString e, python_available = False,
                    python_version = ''Not found'',
                    health_message = Some ''Python is not installed or not in PATH'',
                    python_command = None \<rparr>)
       \<and> (upload_single part = Inr (Some f)
            \<longrightarrow> snd (upload_endpoint e part)
                = Responded 500 (ErrorBody (JStr ''Python is not installed or not found in PATH.'')))
       \<and> (truthy filename
            \<longrightarrow> snd (analyze_instructor e filename)
                = Responded 500 (ErrorBody (JStr ''Python is not installed or not found in PATH.'')))"
  using assms
  by (auto simp: health_check_def upload_endpoint_accepted upload_first_def upload_with_def
      analyze_instructor_def)

theorem no_runtime_witness:
  "snd (health_check ((example_env [] [] [] None)\<lparr>PYTHON_CMD := None\<rparr>))
     = Responded 200
         (HealthBody
            \<lparr> status = ''warning'', timestamp = ''2026-11-01T10:00:00.000Z'',
              python_available = False, python_version = ''Not found'',
              health_message = Some ''Python is not installed or not in PATH'',
              python_command = None \<rparr>)
   \<and> snd (upload_endpoint ((example_env [] [] [] None)\<lparr>PYTHON_CMD := None\<rparr>) (Some example_csv))
     = Responded 500 (ErrorBody (JStr ''Python is not installed or not found in PATH.''))
   \<and> snd (analyze_instructor ((example_env [] [] [] None)\<lparr>PYTHON_CMD := None\<rparr>)
            (Some (JStr ''Ann_Lee_feedback.csv'')))
     = Responded 500 (ErrorBody (JStr ''Python is not installed or not found in PATH.''))"
  using no_runtime
    [of "(example_env [] [] [] None)\<lparr>PYTHON_CMD := None\<rparr>" "Some example_csv" example_csv
        "Some (JStr ''Ann_Lee_feedback.csv'')"]
  by (simp add: example_env_no_runtime example_csv_accepted)

text \<open>
  Why C8 needs its conditions: in that state a request without a file, or without a
  filename, is answered 400.
\<close>

theorem no_runtime_counterexample:
  "upload_endpoint ((example_env [] [] [] None)\<lparr>PYTHON_CMD := None\<rparr>) None
     = ([], Responded 400 (ErrorBody (JStr ''No file uploaded'')))
   \<and> analyze_instructor ((example_env [] [] [] None)\<lparr>PYTHON_CMD := None\<rparr>) None
     = ([], Responded 400 (ErrorBody (JStr ''Filename is required'')))"
  by (simp add: no_file analyze_instructor_def)

subsection \<open>A filename that leaves the directory\<close>

lemma split_on_not_Nil: "split_on d s \<noteq> []"
  by (induction s) (auto split: list.splits)

lemma split_on_append: "split_on d (xs @ d # ys) = split_on d xs @ split_on d ys"
proof (induction xs)
  case Nil
  show ?case using split_on_not_Nil[of d ys] by (simp split: list.splits)
next
  case (Cons c xs)
  obtain seg segs where s: "split_on d xs = seg # segs"
    using split_on_not_Nil[of d xs] by (cases "split_on d xs") auto
  show ?case using Cons.IH s by simp
qed

lemma split_on_segment: "d \<notin> set s \<Longrightarrow> split_on d s = [s]"
  by (induction s) auto

lemma absolute_path_snoc: "absolute_path (segs @ [seg]) = absolute_path segs @ CHR ''/'' # seg"
  by (simp add: absolute_path_def)

lemma split_absolute_path:
  "\<forall>seg \<in> set segs. CHR ''/'' \<notin> set seg \<Longrightarrow> split_on CHR ''/'' (absolute_path segs) = [] # segs"
proof (induction segs rule: rev_induct)
  case Nil
  show ?case by (simp add: absolute_path_def)
next
  case (snoc seg segs)
  then show ?case
    by (simp add: absolute_path_snoc split_on_append split_on_segment)
qed

lemma normalize_segments_plain:
  "list_all plain_segment segs \<Longrightarrow>
     normalize_segments allow acc (segs @ rest) = normalize_segments allow (rev segs @ acc) rest"
  by (induction segs arbitrary: acc) (auto simp: plain_segment_def)

lemma join_absolute: "segs \<noteq> [] \<Longrightarrow> CHR ''/'' # join ''/'' segs = absolute_path segs"
  by (induction "''/''" segs rule: join.induct) (auto simp: absolute_path_def)

lemma absolute_path_Cons: "absolute_path (seg # segs) = CHR ''/'' # seg @ absolute_path segs"
  by (simp add: absolute_path_def)

lemma join_not_Nil: "segs \<noteq> [] \<Longrightarrow> list_all (\<lambda>s. s \<noteq> []) segs \<Longrightarrow> join ''/'' segs \<noteq> []"
  by (induction "''/''" segs rule: join.induct) auto

text \<open>Normalizing an absolute path whose segments, reduced, are \<open>out\<close>.\<close>

lemma path_normalize_absolute:
  assumes "segs \<noteq> []" and "\<forall>seg \<in> set segs. CHR ''/'' \<notin> set seg"
    and "last segs \<noteq> []"
    and "normalize_segments False [] segs = out"
    and "out \<noteq> []" and "list_all (\<lambda>s. s \<noteq> []) out"
  shows "path_normalize (absolute_path segs) = absolute_path out"
proof -
  obtain seg rest where c: "segs = seg # rest" using assms(1) by (cases segs) auto
  have ne: "absolute_path segs \<noteq> []" and hd: "hd (absolute_path segs) = CHR ''/''"
    by (simp_all add: c absolute_path_Cons)
  obtain front l where sn: "segs = front @ [l]" using assms(1) by (cases segs rule: rev_cases) auto
  with assms(3) have "l \<noteq> []" by simp
  then have "last (absolute_path segs) = last l"
    by (simp add: sn absolute_path_snoc)
  moreover have "last l \<in> set l" using \<open>l \<noteq> []\<close> by simp
  moreover have "CHR ''/'' \<notin> set l" using assms(2) sn by simp
  ultimately have tr: "last (absolute_path segs) \<noteq> CHR ''/''" by metis
  have j: "join ''/'' out \<noteq> []" by (rule join_not_Nil[OF assms(5,6)])
  show ?thesis
    using ne hd tr j
    by (simp add: path_normalize_def Let_def split_absolute_path[OF assms(2)] assms(4)
        join_absolute[OF assms(5)])
qed

lemma path_join_two:
  "a \<noteq> [] \<Longrightarrow> b \<noteq> [] \<Longrightarrow> path_join [a, b] = path_normalize (a @ CHR ''/'' # b)"
  by (simp add: path_join_def)

lemma plain_dir_join:
  assumes "segs \<noteq> []" and "list_all plain_segment segs" and "plain_segment s"
  shows "path_join [absolute_path segs, s] = absolute_path (segs @ [s])"
proof -
  obtain seg rest where c: "segs = seg # rest" using assms(1) by (cases segs) auto
  have ne: "absolute_path segs \<noteq> []" by (simp add: c absolute_path_Cons)
  have s: "s \<noteq> []" using assms(3) by (simp add: plain_segment_def)
  have pl: "list_all plain_segment (segs @ [s])" using assms(2,3) by simp
  have n: "normalize_segments False [] (segs @ [s]) = segs @ [s]"
    using normalize_segments_plain[OF pl, of False "[]" "[]"] by simp
  have "path_normalize (absolute_path (segs @ [s])) = absolute_path (segs @ [s])"
    by (rule path_normalize_absolute[OF _ _ _ n])
       (use pl s in \<open>auto simp: list_all_iff plain_segment_def\<close>)
  then show ?thesis
    by (simp only: path_join_two[OF ne s] absolute_path_snoc)
qed

lemma traversal_join:
  assumes "segs \<noteq> []" and "list_all plain_segment segs"
  shows "path_join [absolute_path (segs @ [''instructor_data'']), ''../uploads/x.csv'']
           = absolute_path (segs @ [''uploads'', ''x.csv''])"
proof -
  let ?all = "segs @ [''instructor_data'', ''..'', ''uploads'', ''x.csv'']"
  have ne: "absolute_path (segs @ [''instructor_data'']) \<noteq> []"
    by (simp add: absolute_path_snoc)
  have j: "absolute_path (segs @ [''instructor_data'']) @ CHR ''/'' # ''../uploads/x.csv''
             = absolute_path ?all"
    by (simp add: absolute_path_def)
  have n: "normalize_segments False [] ?all = segs @ [''uploads'', ''x.csv'']"
    using normalize_segments_plain[OF assms(2), of False "[]" "[''instructor_data'', ''..'', ''uploads'', ''x.csv'']"]
    by simp
  have "path_normalize (absolute_path ?all) = absolute_path (segs @ [''uploads'', ''x.csv''])"
    by (rule path_normalize_absolute[OF _ _ _ n])
       (use assms(2) in \<open>auto simp: list_all_iff plain_segment_def\<close>)
  then show ?thesis by (simp only: path_join_two[OF ne] j list.simps not_False_eq_True)
qed

lemma startsWith_common: "startsWith (d @ a) (d @ b) = startsWith a b"
  by (simp add: startsWith_def)

lemma analyze_no_containment_check:
  assumes "name \<noteq> []" and "PYTHON_CMD e = Some cmd"
    and "existsSync e (path_join [instructorDataDir e, name])"
    and "existsSync e (analyzeScript e)"
  shows "fst (analyze_instructor e (Some (JStr name)))
           = [Spawn cmd [analyzeScript e, path_join [instructorDataDir e, name]]]"
  using assms by (simp add: analyze_instructor_string[OF assms(1,2)])

text \<open>
  C9.  Let the server directory be any absolute path in normal form.  The filename
  \<open>../uploads/x.csv\<close> joins to \<open>x.csv\<close> in the uploads directory, which is not inside the
  instructor-data directory; if that file exists (with the analysis script, and a runtime
  found) the handler spawns the analysis process on it.
\<close>

theorem analyze_instructor_traversal:
  assumes "dirname e = absolute_path segs" and "segs \<noteq> []" and "list_all plain_segment segs"
    and "PYTHON_CMD e = Some cmd"
    and "existsSync e (uploadsDir e @ ''/x.csv'')"
    and "existsSync e (analyzeScript e)"
  shows "path_join [instructorDataDir e, ''../uploads/x.csv''] = uploadsDir e @ ''/x.csv''
       \<and> \<not> inside_directory (instructorDataDir e) (uploadsDir e @ ''/x.csv'')
       \<and> fst (analyze_instructor e (Some (JStr ''../uploads/x.csv'')))
           = [Spawn cmd [analyzeScript e, uploadsDir e @ ''/x.csv'']]"
proof -
  have plain: "plain_segment ''instructor_data''" "plain_segment ''uploads''"
    by (simp_all add: plain_segment_def)
  have i: "instructorDataDir e = absolute_path segs @ ''/instructor_data''"
    by (simp add: instructorDataDir_def assms(1) plain_dir_join[OF assms(2,3) plain(1)]
        absolute_path_snoc)
  have u: "uploadsDir e = absolute_path segs @ ''/uploads''"
    by (simp add: uploadsDir_def assms(1) plain_dir_join[OF assms(2,3) plain(2)]
        absolute_path_snoc)
  have j: "path_join [instructorDataDir e, ''../uploads/x.csv''] = uploadsDir e @ ''/x.csv''"
    using traversal_join[OF assms(2,3)] by (simp add: i u absolute_path_def)
  have o: "\<not> inside_directory (instructorDataDir e) (uploadsDir e @ ''/x.csv'')"
    by (simp add: inside_directory_def i u startsWith_common) (simp add: startsWith_def)
  have "existsSync e (path_join [instructorDataDir e, ''../uploads/x.csv''])"
    using assms(5) by (simp add: j)
  then have s: "fst (analyze_instructor e (Some (JStr ''../uploads/x.csv'')))
           = [Spawn cmd [analyzeScript e, uploadsDir e @ ''/x.csv'']]"
    using assms(4,6) by (simp add: analyze_instructor_def Let_def j)
  from j o s show ?thesis by (intro conjI)
qed

theorem analyze_instructor_traversal_witness:
  "path_join [''/srv/app/instructor_data'', ''../uploads/x.csv''] = ''/srv/app/uploads/x.csv''
   \<and> \<not> inside_directory ''/srv/app/instructor_data'' ''/srv/app/uploads/x.csv''
   \<and> fst (analyze_instructor (example_env [''/srv/app/uploads/x.csv''] [] [] None)
             (Some (JStr ''../uploads/x.csv'')))
       = [Spawn ''python3'' [''/srv/app/analyze.py'', ''/srv/app/uploads/x.csv'']]"
proof -
  let ?e = "example_env [''/srv/app/uploads/x.csv''] [] [] None"
  have u: "uploadsDir ?e = ''/srv/app/uploads''"
    by (simp add: uploadsDir_def example_env_def path_join_def path_normalize_def)
  have i: "instructorDataDir ?e = ''/srv/app/instructor_data''"
    by (simp add: instructorDataDir_def example_env_def path_join_def path_normalize_def)
  have a: "analyzeScript ?e = ''/srv/app/analyze.py''"
    by (simp add: analyzeScript_def example_env_def path_join_def path_normalize_def)
  have d: "dirname ?e = absolute_path [''srv'', ''app'']"
    by (simp add: example_env_def absolute_path_def)
  have p: "list_all plain_segment [''srv'', ''app'']"
    by (simp add: plain_segment_def)
  have c: "PYTHON_CMD ?e = Some ''python3''" by (simp add: example_env_def)
  have x: "existsSync ?e (uploadsDir ?e @ ''/x.csv'')" "existsSync ?e (analyzeScript ?e)"
    unfolding u a by (simp_all add: example_env_def)
  show ?thesis
    using analyze_instructor_traversal[OF d _ p c x] by (simp add: u i a)
qed

subsection \<open>The fallback of the chat\<close>

lemma chat_catch_unbound:
  "chat_catch (catch_scope (handler_scope message analysisData instructor conversationHistory) err)
     = Raised (ReferenceError ''summary is not defined'')"
  by (simp add: chat_catch_def catch_scope_def handler_scope_def read_var_def bind_js_def settle_def)

lemma chat_failure_raises:
  assumes "truthy message"
    and "chat_try llm message analysisData instructor conversationHistory = Inl err"
  shows "chat llm message analysisData instructor conversationHistory
           = Raised (ReferenceError ''summary is not defined'')"
  using assms by (simp add: chat_def chat_catch_unbound)

lemma example_context:
  "\<exists>c. chat_context None (chat_summary (Some example_analysis)) = Inr c"
  by (simp add: chat_context_def chat_summary_def example_analysis_def bind_js_def
      or_empty_array_def receiver_array_def)

text \<open>
  C3.  When the call of the external model fails (a network error, an answer that is not
  JSON, the error body sent for a missing key), the \<open>catch\<close> block reads \<open>summary\<close>, which
  is bound in the \<open>try\<close> block only: the handler throws a \<open>ReferenceError\<close> and writes no
  response.
\<close>

theorem chat_fallback_raises:
  "chat (\<lambda>ms. FetchRejected ''fetch failed'') (Some (JStr ''How is my rating?''))
        (Some example_analysis) None (Some (JArr []))
     = Raised (ReferenceError ''summary is not defined'')
   \<and> chat (\<lambda>ms. NotJson ''Unexpected token'') (Some (JStr ''How is my rating?''))
        (Some example_analysis) None (Some (JArr []))
     = Raised (ReferenceError ''summary is not defined'')
   \<and> chat (\<lambda>ms. Parsed (JObj [(''type'', JStr ''error'')])) (Some (JStr ''How is my rating?''))
        (Some example_analysis) None (Some (JArr []))
     = Raised (ReferenceError ''summary is not defined'')"
proof -
  obtain c where c: "chat_context None (chat_summary (Some example_analysis)) = Inr c"
    using example_context by blast
  have h: "recent_history (Some (JArr [])) = Inr []"
    by (simp add: recent_history_def receiver_array_def bind_js_def)
  have 1: "chat_try (\<lambda>ms. FetchRejected ''fetch failed'') (Some (JStr ''How is my rating?''))
             (Some example_analysis) None (Some (JArr [])) = Inl (TypeError ''fetch failed'')"
    by (simp add: chat_try_def c h bind_js_def)
  have 2: "chat_try (\<lambda>ms. NotJson ''Unexpected token'') (Some (JStr ''How is my rating?''))
             (Some example_analysis) None (Some (JArr [])) = Inl (Error ''Unexpected token'')"
    by (simp add: chat_try_def c h bind_js_def)
  have 3: "chat_try (\<lambda>ms. Parsed (JObj [(''type'', JStr ''error'')])) (Some (JStr ''How is my rating?''))
             (Some example_analysis) None (Some (JArr [])) = Inl (Error ''Invalid response from AI'')"
    by (simp add: chat_try_def c h bind_js_def)
  show ?thesis
    by (simp add: chat_failure_raises[OF _ 1] chat_failure_raises[OF _ 2] chat_failure_raises[OF _ 3])
qed

text \<open>With \<open>summary\<close> bound as in the \<open>try\<close> block, the same block answers with the canned text.\<close>

lemma chat_canned_if_bound:
  "chat_catch (try_scope (handler_scope (Some (JStr ''How is my rating?'')) (Some example_analysis) None (Some (JArr [])))
      (chat_summary (Some example_analysis)))
     = Responded 200 (ChatBody (Some (JStr
         ''Your average rating is 4/5 with 75% positive sentiment. This is excellent!'')))"
  by code_simp

subsection \<open>Reports of an empty summary\<close>

text \<open>
  C4.  With an empty summary object, \<open>download-report\<close> throws a \<open>TypeError\<close> (the error
  middleware answers 500); \<open>download-csv\<close> answers 400 when there are no rows, and with an
  empty list of rows renders each numeric field as the text \<open>undefined\<close>.
\<close>

theorem download_empty_summary:
  "download_report e (Some empty_summary) instructor
     = Raised (TypeError ''Cannot read properties of undefined (reading forEach)'')
   \<and> download_report_endpoint e (Some empty_summary) instructor
     = Responded 500 (ErrorBody (JStr ''Cannot read properties of undefined (reading forEach)''))
   \<and> download_csv e (Some empty_summary) None = Responded 400 (ErrorBody (JStr ''No data provided''))
   \<and> download_csv e (Some empty_summary_no_rows) None
     = Responded 200
         (Attachment ''text/csv''
            (''attachment; filename='' @ [CHR 0x22] @ ''feedback_analysis_''
               @ takeWhile (\<lambda>c. c \<noteq> CHR ''T'') (toISOString e) @ ''.csv'' @ [CHR 0x22])
            (''Student ID,Course,Instructor,Rating,Sentiment,Category,Feedback'' @ nl
               @ nl @ nl @ ''SUMMARY'' @ nl
               @ ''Total Responses,undefined'' @ nl
               @ ''Average Rating,undefined'' @ nl
               @ ''Positive Sentiment %,undefined'' @ nl
               @ ''Key Themes,undefined'' @ nl))"
proof -
  have r: "download_report e (Some empty_summary) instructor
     = Raised (TypeError ''Cannot read properties of undefined (reading forEach)'')"
    by (simp add: download_report_def empty_summary_def report_summary_def bind_js_def
        settle_def receiver_array_def)
  have f: "find_route ''POST'' ''/api/download-report'' app_stack
             = Some (DownloadReport,
                 [ErrorMiddleware, Route ''POST'' ''/api/upload'' UploadSecond,
                  Route ''POST'' ''/api/download-csv'' DownloadCsv, Route ''POST'' ''/api/chat'' Chat])"
    by (simp add: app_stack_def)
  have re: "download_report_endpoint e (Some empty_summary) instructor
     = Responded 500 (ErrorBody (JStr ''Cannot read properties of undefined (reading forEach)''))"
    by (simp add: download_report_endpoint_def serve_sync_def f r pass_error_def error_middleware_def)
  have c1: "download_csv e (Some empty_summary) None = Responded 400 (ErrorBody (JStr ''No data provided''))"
    by (simp add: download_csv_def empty_summary_def bind_js_def settle_def)
  have c2: "download_csv e (Some empty_summary_no_rows) None
     = Responded 200
         (Attachment ''text/csv''
            (''attachment; filename='' @ [CHR 0x22] @ ''feedback_analysis_''
               @ takeWhile (\<lambda>c. c \<noteq> CHR ''T'') (toISOString e) @ ''.csv'' @ [CHR 0x22])
            (''Student ID,Course,Instructor,Rating,Sentiment,Category,Feedback'' @ nl
               @ nl @ nl @ ''SUMMARY'' @ nl
               @ ''Total Responses,undefined'' @ nl
               @ ''Average Rating,undefined'' @ nl
               @ ''Positive Sentiment %,undefined'' @ nl
               @ ''Key Themes,undefined'' @ nl))"
    by (simp add: download_csv_def empty_summary_no_rows_def bind_js_def settle_def
        receiver_array_def attachment_stem_def to_text_def)
  from r re c1 c2 show ?thesis by (intro conjI)
qed

end
